theory Spec2Isabelle
  imports Main "HOL-Library.AList" "HOL-Library.Monad_Syntax"
begin

section \<open>Python values\<close>

text \<open>
  The validation module works on what \<^verbatim>\<open>json.loads\<close> (or the chain's JSON output parser)
  hands it: \<^verbatim>\<open>None\<close>, booleans, integers, strings, lists and dicts. Numbers with a fraction or
  an exponent (Python floats) are outside this model. Parsing builds a fresh object for
  every node, so no two positions share an object and in-place updates are modelled by
  returning the updated value.

  A dict is an association list in insertion order. The keys of a parsed document are
  strings; the module itself also uses question difficulties as keys, which may be any
  hashable value, so a key is \<^verbatim>\<open>None\<close>, an integer or a string. \<^verbatim>\<open>True\<close> and \<^verbatim>\<open>False\<close> hash and
  compare as 1 and 0 and are the keys \<open>KInt 1\<close> and \<open>KInt 0\<close>.

  A string is a list of characters, each a code point below 256.

  The functions of \<^verbatim>\<open>core/validation.py\<close> keep their names, without the leading
  underscore of the private ones.
\<close>

datatype key = KNone | KInt int | KStr string

datatype json =
    JNull
  | JBool bool
  | JInt int
  | JStr string
  | JList "json list"
  | JObj "(key \<times> json) list"

type_synonym dict = "(key \<times> json) list"

text \<open>\<^verbatim>\<open>field in d\<close>, \<^verbatim>\<open>d.get(field)\<close> and \<^verbatim>\<open>d[field] = v\<close> for a string field name.\<close>

definition dict_has :: "dict \<Rightarrow> string \<Rightarrow> bool" where
  "dict_has d field = (map_of d (KStr field) \<noteq> None)"

definition dict_get :: "dict \<Rightarrow> string \<Rightarrow> json option" where
  "dict_get d field = map_of d (KStr field)"

definition dict_set :: "dict \<Rightarrow> string \<Rightarrow> json \<Rightarrow> dict" where
  "dict_set d field v = AList.update (KStr field) v d"

text \<open>\<^verbatim>\<open>d.get(field)\<close> as a Python value: \<^verbatim>\<open>None\<close> when the key is absent.\<close>

definition get_or_none :: "dict \<Rightarrow> string \<Rightarrow> json" where
  "get_or_none d field = (case dict_get d field of None \<Rightarrow> JNull | Some v \<Rightarrow> v)"

text \<open>Truth value testing (\<^verbatim>\<open>bool(x)\<close>, \<^verbatim>\<open>if x\<close>, \<^verbatim>\<open>not x\<close>).\<close>

fun truthy :: "json \<Rightarrow> bool" where
  "truthy JNull = False"
| "truthy (JBool b) = b"
| "truthy (JInt n) = (n \<noteq> 0)"
| "truthy (JStr s) = (s \<noteq> [])"
| "truthy (JList xs) = (xs \<noteq> [])"
| "truthy (JObj d) = (d \<noteq> [])"

text \<open>
  Python's \<^verbatim>\<open>==\<close>. Booleans compare with integers as 0 and 1; two dicts are equal when they
  have the same number of keys and every key of the first has an equal value in the
  second.
\<close>

fun py_eq :: "json \<Rightarrow> json \<Rightarrow> bool"
  and py_eq_list :: "json list \<Rightarrow> json list \<Rightarrow> bool"
  and py_eq_items :: "dict \<Rightarrow> dict \<Rightarrow> bool" where
  "py_eq JNull JNull = True"
| "py_eq (JBool a) (JBool b) = (a = b)"
| "py_eq (JBool a) (JInt n) = (n = (if a then 1 else 0))"
| "py_eq (JInt m) (JBool b) = (m = (if b then 1 else 0))"
| "py_eq (JInt m) (JInt n) = (m = n)"
| "py_eq (JStr s) (JStr t) = (s = t)"
| "py_eq (JList xs) (JList ys) = py_eq_list xs ys"
| "py_eq (JObj a) (JObj b) = (length a = length b \<and> py_eq_items a b)"
| "py_eq _ _ = False"
| "py_eq_list [] [] = True"
| "py_eq_list (x # xs) (y # ys) = (py_eq x y \<and> py_eq_list xs ys)"
| "py_eq_list _ _ = False"
| "py_eq_items [] b = True"
| "py_eq_items ((k, v) # a) b =
     ((case map_of b k of None \<Rightarrow> False | Some w \<Rightarrow> py_eq v w) \<and> py_eq_items a b)"

section \<open>Failures\<close>

text \<open>
  The messages of the \<^verbatim>\<open>MCQValidationError\<close>s that the module raises itself, without their
  interpolated values other than the field name.
\<close>

datatype msg =
    Invalid_input_type
  | Missing_required_field string
  | Questions_must_be_array
  | No_valid_questions_found
  | Question_missing_field string
  | Options_must_be_array
  | Missing_or_empty_required_field string
  | Username_format

datatype exn =
    MCQValidationError msg
  | JSONDecodeError
  | TypeError
  | AttributeError
  | KeyError
  | ValueError
  | StopIteration

text \<open>
  Both entry points catch every exception and raise \<^verbatim>\<open>MCQValidationError\<close> again with a
  prefixed message; a \<open>failure\<close> is that outer error, named by its prefix and carrying the
  exception it wraps.
\<close>

datatype failure =
    Invalid_JSON_format
  | Error_validating_MCQ_data exn
  | Invalid_request_data exn

section \<open>Option repair\<close>

text \<open>Decimal rendering of a number inside an f-string.\<close>

function show_nat :: "nat \<Rightarrow> string" where
  "show_nat n =
     (if n < 10 then [''0123456789'' ! n]
      else show_nat (n div 10) @ [''0123456789'' ! (n mod 10)])"
  by pat_completeness auto
termination
  by (relation "measure (\<lambda>n. n)") auto

definition synthetic_option :: "nat \<Rightarrow> json" where
  "synthetic_option n =
     JObj [(KStr ''option'', JStr (''Option '' @ show_nat n)), (KStr ''is_correct'', JBool False)]"

text \<open>\<^verbatim>\<open>while len(options) < 4: options.append(...)\<close>\<close>

function pad_options :: "json list \<Rightarrow> json list" where
  "pad_options options =
     (if length options < 4
      then pad_options (options @ [synthetic_option (length options + 1)])
      else options)"
  by pat_completeness auto
termination
  by (relation "measure (\<lambda>options. 4 - length options)") auto

text \<open>
  Calling \<^verbatim>\<open>.get\<close> on each element in turn: the first element that is not a dict raises
  \<^verbatim>\<open>AttributeError\<close>.
\<close>

fun the_dicts :: "json list \<Rightarrow> exn + dict list" where
  "the_dicts [] = Inr []"
| "the_dicts (JObj d # xs) = (case the_dicts xs of Inl e \<Rightarrow> Inl e | Inr ds \<Rightarrow> Inr (d # ds))"
| "the_dicts (_ # xs) = Inl AttributeError"

text \<open>The condition \<^verbatim>\<open>opt.get("is_correct", False)\<close>.\<close>

definition is_correct :: "dict \<Rightarrow> bool" where
  "is_correct opt = (case dict_get opt ''is_correct'' of None \<Rightarrow> False | Some v \<Rightarrow> truthy v)"

text \<open>\<^verbatim>\<open>next(i for i, x in enumerate(xs) if P x)\<close>; \<open>None\<close> is \<^verbatim>\<open>StopIteration\<close>.\<close>

fun first_index :: "('a \<Rightarrow> bool) \<Rightarrow> 'a list \<Rightarrow> nat option" where
  "first_index P [] = None"
| "first_index P (x # xs) = (if P x then Some 0 else map_option Suc (first_index P xs))"

text \<open>
  \<^verbatim>\<open>_validate_question_options\<close>. The elements of \<^verbatim>\<open>correct_options\<close> are the very objects of
  \<^verbatim>\<open>options\<close>; the reset loop changes only their \<^verbatim>\<open>is_correct\<close>, and only their \<^verbatim>\<open>option\<close>
  is read afterwards.
\<close>

fun validate_question_options :: "json \<Rightarrow> exn + json list" where
  "validate_question_options (JList options0) =
     (let options =
        (if length options0 \<noteq> 4 then
           (if length options0 < 4 then pad_options options0
            else if length options0 > 4 then take 4 options0
            else options0)
         else options0)
      in case the_dicts options of
           Inl e \<Rightarrow> Inl e
         | Inr opts \<Rightarrow>
            (let correct_options = filter is_correct opts in
             if length correct_options \<noteq> 1 then
               (let reset = map (\<lambda>opt. dict_set opt ''is_correct'' (JBool False)) opts in
                if correct_options = [] then
                  Inr (map JObj (reset[0 := dict_set (reset ! 0) ''is_correct'' (JBool True)]))
                else
                  (case first_index
                          (\<lambda>opt. list_ex (\<lambda>co. py_eq (get_or_none co ''option'')
                                                       (get_or_none opt ''option''))
                                          correct_options)
                          reset of
                     None \<Rightarrow> Inl StopIteration
                   | Some i \<Rightarrow>
                       Inr (map JObj
                             (reset[i := dict_set (reset ! i) ''is_correct'' (JBool True)]))))
             else Inr (map JObj opts)))"
| "validate_question_options _ = Inl (MCQValidationError Options_must_be_array)"

section \<open>Question repair\<close>

text \<open>
  The body of the \<^verbatim>\<open>try\<close> block of \<^verbatim>\<open>_validate_questions\<close> for the question at index \<open>i\<close>.
  An element that is not a dict raises \<^verbatim>\<open>TypeError\<close> or \<^verbatim>\<open>AttributeError\<close> at its first
  item assignment or \<^verbatim>\<open>.get\<close>; the handler treats every exception alike.
\<close>

fun validate_question :: "nat \<Rightarrow> json \<Rightarrow> exn + dict" where
  "validate_question i (JObj question0) =
     (let question =
        (if \<not> dict_has question0 ''question_id''
         then dict_set question0 ''question_id'' (JInt (int i + 1))
         else question0)
      in case find (\<lambda>field. \<not> dict_has question field)
                   [''question_text'', ''explanation'', ''options'', ''difficulty''] of
           Some field \<Rightarrow> Inl (MCQValidationError (Question_missing_field field))
         | None \<Rightarrow>
            (case validate_question_options
                    (case dict_get question ''options'' of None \<Rightarrow> JList [] | Some v \<Rightarrow> v) of
               Inl e \<Rightarrow> Inl e
             | Inr opts \<Rightarrow>
                (let question1 = dict_set question ''options'' (JList opts) in
                 Inr (if \<not> dict_has question1 ''topic_area''
                      then dict_set question1 ''topic_area'' (JStr ''General'')
                      else question1))))"
| "validate_question i _ = Inl TypeError"

text \<open>The loop of \<^verbatim>\<open>_validate_questions\<close> over \<^verbatim>\<open>enumerate(questions)\<close>, from index \<open>i\<close> on.\<close>

fun validate_questions_loop :: "nat \<Rightarrow> json list \<Rightarrow> dict list \<Rightarrow> dict list" where
  "validate_questions_loop i [] validated_questions = validated_questions"
| "validate_questions_loop i (question # questions) validated_questions =
     (case validate_question i question of
        Inl e \<Rightarrow> validate_questions_loop (Suc i) questions validated_questions
      | Inr q \<Rightarrow> validate_questions_loop (Suc i) questions (validated_questions @ [q]))"

definition validate_questions :: "json list \<Rightarrow> exn + dict list" where
  "validate_questions questions =
     (let validated_questions = validate_questions_loop 0 questions [] in
      if length validated_questions = 0
      then Inl (MCQValidationError No_valid_questions_found)
      else Inr validated_questions)"

section \<open>Roadmap repair\<close>

fun isinstance_list :: "json \<Rightarrow> bool" where
  "isinstance_list (JList xs) = True"
| "isinstance_list _ = False"

text \<open>
  The body of the \<^verbatim>\<open>try\<close> block of \<^verbatim>\<open>_validate_roadmap\<close> for the step at index \<open>i\<close>. The loop
  over \<^verbatim>\<open>required_fields\<close> only logs, and its \<^verbatim>\<open>continue\<close> continues that same loop, so it
  leaves no trace in the result. A step that is not a dict raises at its first
  membership test, item access or item assignment.
\<close>

fun validate_roadmap_step :: "nat \<Rightarrow> json \<Rightarrow> exn + dict" where
  "validate_roadmap_step i (JObj step0) =
     (let step =
        (if \<not> dict_has step0 ''step_number''
         then dict_set step0 ''step_number'' (JInt (int i + 1))
         else step0)
      in Inr (if \<not> dict_has step ''prerequisites''
              then dict_set step ''prerequisites'' (JList [])
              else if \<not> isinstance_list (get_or_none step ''prerequisites'')
              then dict_set step ''prerequisites'' (JList [])
              else step))"
| "validate_roadmap_step i _ = Inl TypeError"

fun validate_roadmap_loop :: "nat \<Rightarrow> json list \<Rightarrow> dict list \<Rightarrow> dict list" where
  "validate_roadmap_loop i [] validated_roadmap = validated_roadmap"
| "validate_roadmap_loop i (step # steps) validated_roadmap =
     (case validate_roadmap_step i step of
        Inl e \<Rightarrow> validate_roadmap_loop (Suc i) steps validated_roadmap
      | Inr s \<Rightarrow> validate_roadmap_loop (Suc i) steps (validated_roadmap @ [s]))"

fun validate_roadmap :: "json \<Rightarrow> dict list" where
  "validate_roadmap (JList roadmap) = validate_roadmap_loop 0 roadmap []"
| "validate_roadmap _ = []"

section \<open>Reference video repair\<close>

definition startswith :: "string \<Rightarrow> string \<Rightarrow> bool" where
  "startswith s p = (take (length p) s = p)"

definition endswith :: "string \<Rightarrow> string \<Rightarrow> bool" where
  "endswith s p = (length p \<le> length s \<and> drop (length s - length p) s = p)"

text \<open>
  The body of the \<^verbatim>\<open>try\<close> block of \<^verbatim>\<open>_validate_reference_videos\<close>: \<open>Inl\<close> is an exception,
  \<open>Inr None\<close> the \<^verbatim>\<open>continue\<close> after an invalid URL, \<open>Inr (Some v)\<close> the video that is
  appended. As for roadmap steps, the loop over \<^verbatim>\<open>required_fields\<close> only logs and its
  \<^verbatim>\<open>continue\<close> continues that same loop. \<^verbatim>\<open>video["url"]\<close> raises \<^verbatim>\<open>KeyError\<close> when the key is
  absent, and \<^verbatim>\<open>.startswith\<close> raises \<^verbatim>\<open>AttributeError\<close> on a value that is not a string.
\<close>

fun validate_video :: "json \<Rightarrow> exn + dict option" where
  "validate_video (JObj video) =
     (case dict_get video ''url'' of
        None \<Rightarrow> Inl KeyError
      | Some (JStr url) \<Rightarrow>
          if \<not> (startswith url ''http://'' \<or> startswith url ''https://'') then Inr None
          else
            (let video1 =
               (if \<not> dict_has video ''duration''
                then dict_set video ''duration'' (JStr ''Unknown'') else video);
                 video2 =
               (if \<not> dict_has video1 ''description''
                then dict_set video1 ''description'' (JStr ''Educational video content'')
                else video1)
             in Inr (Some video2))
      | Some _ \<Rightarrow> Inl AttributeError)"
| "validate_video _ = Inl TypeError"

fun validate_videos_loop :: "json list \<Rightarrow> dict list \<Rightarrow> dict list" where
  "validate_videos_loop [] validated_videos = validated_videos"
| "validate_videos_loop (video # videos) validated_videos =
     (case validate_video video of
        Inr (Some v) \<Rightarrow> validate_videos_loop videos (validated_videos @ [v])
      | _ \<Rightarrow> validate_videos_loop videos validated_videos)"

fun validate_reference_videos :: "json \<Rightarrow> dict list" where
  "validate_reference_videos (JList videos) = validate_videos_loop videos []"
| "validate_reference_videos _ = []"

section \<open>Metadata\<close>

text \<open>Iteration, \<^verbatim>\<open>len\<close> and hashing of a Python value; each raises \<^verbatim>\<open>TypeError\<close> where undefined.\<close>

fun key_value :: "key \<Rightarrow> json" where
  "key_value KNone = JNull"
| "key_value (KInt n) = JInt n"
| "key_value (KStr s) = JStr s"

fun py_iter :: "json \<Rightarrow> exn + json list" where
  "py_iter (JList xs) = Inr xs"
| "py_iter (JStr s) = Inr (map (\<lambda>c. JStr [c]) s)"
| "py_iter (JObj d) = Inr (map (\<lambda>kv. key_value (fst kv)) d)"
| "py_iter _ = Inl TypeError"

fun py_len :: "json \<Rightarrow> exn + nat" where
  "py_len (JList xs) = Inr (length xs)"
| "py_len (JStr s) = Inr (length s)"
| "py_len (JObj d) = Inr (length d)"
| "py_len _ = Inl TypeError"

fun hash_key :: "json \<Rightarrow> exn + key" where
  "hash_key JNull = Inr KNone"
| "hash_key (JBool b) = Inr (KInt (if b then 1 else 0))"
| "hash_key (JInt n) = Inr (KInt n)"
| "hash_key (JStr s) = Inr (KStr s)"
| "hash_key _ = Inl TypeError"

text \<open>
  \<^verbatim>\<open>d.update(other)\<close>: the items of a dict; otherwise \<^verbatim>\<open>other\<close> is iterated and each element
  must itself iterate to exactly a key and a value.
\<close>

fun update_from_pairs :: "dict \<Rightarrow> json list \<Rightarrow> exn + dict" where
  "update_from_pairs d [] = Inr d"
| "update_from_pairs d (e # es) =
     (case py_iter e of
        Inl x \<Rightarrow> Inl TypeError
      | Inr [k, v] \<Rightarrow>
          (case hash_key k of
             Inl x \<Rightarrow> Inl x
           | Inr k' \<Rightarrow> update_from_pairs (AList.update k' v d) es)
      | Inr _ \<Rightarrow> Inl ValueError)"

fun dict_update :: "dict \<Rightarrow> json \<Rightarrow> exn + dict" where
  "dict_update d (JObj other) = Inr (fold (\<lambda>kv m. AList.update (fst kv) (snd kv) m) other d)"
| "dict_update d other =
     (case py_iter other of Inl x \<Rightarrow> Inl x | Inr es \<Rightarrow> update_from_pairs d es)"

text \<open>The loop of \<^verbatim>\<open>_generate_metadata\<close> that counts the questions of each difficulty.\<close>

fun count_difficulties :: "json list \<Rightarrow> (key \<times> int) list \<Rightarrow> exn + (key \<times> int) list" where
  "count_difficulties [] difficulty_dist = Inr difficulty_dist"
| "count_difficulties (JObj question # questions) difficulty_dist =
     (case hash_key (case dict_get question ''difficulty'' of
                       None \<Rightarrow> JStr ''unknown'' | Some v \<Rightarrow> v) of
        Inl e \<Rightarrow> Inl e
      | Inr difficulty \<Rightarrow>
          count_difficulties questions
            (AList.update difficulty
               ((case map_of difficulty_dist difficulty of None \<Rightarrow> 0 | Some n \<Rightarrow> n) + 1)
               difficulty_dist))"
| "count_difficulties (_ # questions) difficulty_dist = Inl AttributeError"

text \<open>\<^verbatim>\<open>_generate_metadata\<close>; \<open>now\<close> is what \<^verbatim>\<open>datetime.now().isoformat()\<close> returns.\<close>

definition generate_metadata :: "string \<Rightarrow> dict \<Rightarrow> exn + dict" where
  "generate_metadata now mcq_data =
     (let questions = (case dict_get mcq_data ''questions'' of None \<Rightarrow> JList [] | Some v \<Rightarrow> v) in
      case py_iter questions of
        Inl e \<Rightarrow> Inl e
      | Inr qs \<Rightarrow>
      (case count_difficulties qs [] of
        Inl e \<Rightarrow> Inl e
      | Inr difficulty_dist \<Rightarrow>
      (case py_len questions of
        Inl e \<Rightarrow> Inl e
      | Inr total_questions \<Rightarrow>
      (case py_len (case dict_get mcq_data ''roadmap'' of None \<Rightarrow> JList [] | Some v \<Rightarrow> v) of
        Inl e \<Rightarrow> Inl e
      | Inr roadmap_steps \<Rightarrow>
      (case py_len (case dict_get mcq_data ''reference_videos'' of
                      None \<Rightarrow> JList [] | Some v \<Rightarrow> v) of
        Inl e \<Rightarrow> Inl e
      | Inr reference_video_count \<Rightarrow>
          dict_update
            [(KStr ''total_questions'', JInt (int total_questions)),
             (KStr ''difficulty_distribution'',
                JObj (map (\<lambda>kn. (fst kn, JInt (snd kn))) difficulty_dist)),
             (KStr ''has_roadmap'', JBool (truthy (get_or_none mcq_data ''roadmap''))),
             (KStr ''has_reference_videos'',
                JBool (truthy (get_or_none mcq_data ''reference_videos''))),
             (KStr ''roadmap_steps'', JInt (int roadmap_steps)),
             (KStr ''reference_video_count'', JInt (int reference_video_count)),
             (KStr ''validation_timestamp'', JStr now)]
            (case dict_get mcq_data ''metadata'' of None \<Rightarrow> JObj [] | Some v \<Rightarrow> v))))))"

section \<open>Parsing and top-level structure\<close>

text \<open>
  What \<^verbatim>\<open>validate_mcq_json\<close> is called with: a string, a dict, or a value of another type.
\<close>

datatype payload = Text string | Mapping dict | Other

definition isspace :: "char \<Rightarrow> bool" where
  "isspace c = (of_char c \<in> set [9, 10, 11, 12, 13, 28, 29, 30, 31, 32, 133, 160 :: nat])"

definition strip :: "string \<Rightarrow> string" where
  "strip s = rev (dropWhile isspace (rev (dropWhile isspace s)))"

text \<open>
  \<^verbatim>\<open>_parse_json_input\<close>; \<open>loads\<close> is \<^verbatim>\<open>json.loads\<close>, with \<open>None\<close> for \<^verbatim>\<open>JSONDecodeError\<close>.
\<close>

fun parse_json_input :: "(string \<Rightarrow> json option) \<Rightarrow> payload \<Rightarrow> exn + json" where
  "parse_json_input loads (Mapping d) = Inr (JObj d)"
| "parse_json_input loads (Text mcq_json_str) =
     (let cleaned_json = strip mcq_json_str;
          cleaned_json1 =
            (if startswith cleaned_json ''```json'' then drop 7 cleaned_json else cleaned_json);
          cleaned_json2 =
            (if endswith cleaned_json1 ''```''
             then take (length cleaned_json1 - 3) cleaned_json1 else cleaned_json1)
      in case loads (strip cleaned_json2) of
           None \<Rightarrow> Inl JSONDecodeError
         | Some v \<Rightarrow> Inr v)"
| "parse_json_input loads Other = Inl (MCQValidationError Invalid_input_type)"

text \<open>
  \<^verbatim>\<open>field in x\<close> for a string \<open>field\<close>: a key of a dict, an element of a list, a substring
  of a string.
\<close>

fun is_substring :: "string \<Rightarrow> string \<Rightarrow> bool" where
  "is_substring p [] = (p = [])"
| "is_substring p (c # s) = (startswith (c # s) p \<or> is_substring p s)"

fun py_contains :: "json \<Rightarrow> string \<Rightarrow> exn + bool" where
  "py_contains (JObj d) field = Inr (dict_has d field)"
| "py_contains (JList xs) field = Inr (list_ex (\<lambda>x. py_eq x (JStr field)) xs)"
| "py_contains (JStr s) field = Inr (is_substring field s)"
| "py_contains _ field = Inl TypeError"

text \<open>
  The loop of \<^verbatim>\<open>_validate_basic_structure\<close> over the required fields still to be checked;
  \<open>now\<close> is the current time. Only a dict supports the item assignment.
\<close>

fun required_fields_loop :: "string \<Rightarrow> json \<Rightarrow> string list \<Rightarrow> exn + json" where
  "required_fields_loop now mcq_data [] = Inr mcq_data"
| "required_fields_loop now mcq_data (field # fields) =
     (case py_contains mcq_data field of
        Inl e \<Rightarrow> Inl e
      | Inr True \<Rightarrow> required_fields_loop now mcq_data fields
      | Inr False \<Rightarrow>
          if field = ''timestamp'' then
            (case mcq_data of
               JObj d \<Rightarrow> required_fields_loop now (JObj (dict_set d field (JStr now))) fields
             | _ \<Rightarrow> Inl TypeError)
          else Inl (MCQValidationError (Missing_required_field field)))"

text \<open>
  \<^verbatim>\<open>_validate_basic_structure\<close>. \<^verbatim>\<open>mcq_data["questions"]\<close> raises \<^verbatim>\<open>TypeError\<close> on a list or a
  string, and \<^verbatim>\<open>KeyError\<close> on a dict without the key (which the loop has excluded).
\<close>

definition validate_basic_structure :: "string \<Rightarrow> json \<Rightarrow> exn + dict" where
  "validate_basic_structure now mcq_data =
     (case required_fields_loop now mcq_data [''username'', ''topic'', ''timestamp'', ''questions''] of
        Inl e \<Rightarrow> Inl e
      | Inr (JObj d) \<Rightarrow>
          (case dict_get d ''questions'' of
             None \<Rightarrow> Inl KeyError
           | Some v \<Rightarrow>
               if \<not> isinstance_list v then Inl (MCQValidationError Questions_must_be_array)
               else Inr d)
      | Inr _ \<Rightarrow> Inl TypeError)"

section \<open>The repair operation\<close>

text \<open>
  The statements of \<^verbatim>\<open>validate_mcq_json\<close> before the final validation, in their order.
  \<open>now1\<close> and \<open>now2\<close> are the readings of the clock in \<^verbatim>\<open>_validate_basic_structure\<close> and in
  \<^verbatim>\<open>_generate_metadata\<close>.
\<close>

definition manual_validation ::
  "(string \<Rightarrow> json option) \<Rightarrow> string \<Rightarrow> string \<Rightarrow> payload \<Rightarrow> exn + dict" where
  "manual_validation loads now1 now2 mcq_json_str =
     (case parse_json_input loads mcq_json_str of
        Inl e \<Rightarrow> Inl e
      | Inr parsed \<Rightarrow>
      (case validate_basic_structure now1 parsed of
        Inl e \<Rightarrow> Inl e
      | Inr mcq_data \<Rightarrow>
      (case validate_questions
              (case dict_get mcq_data ''questions'' of Some (JList qs) \<Rightarrow> qs | _ \<Rightarrow> []) of
        Inl e \<Rightarrow> Inl e
      | Inr questions \<Rightarrow>
          (let mcq_data1 = dict_set mcq_data ''questions'' (JList (map JObj questions));
               mcq_data2 =
                 (if truthy (get_or_none mcq_data1 ''roadmap'')
                  then dict_set mcq_data1 ''roadmap''
                         (JList (map JObj (validate_roadmap (get_or_none mcq_data1 ''roadmap''))))
                  else mcq_data1);
               mcq_data3 =
                 (if truthy (get_or_none mcq_data2 ''reference_videos'')
                  then dict_set mcq_data2 ''reference_videos''
                         (JList (map JObj (validate_reference_videos
                                             (get_or_none mcq_data2 ''reference_videos''))))
                  else mcq_data2)
           in case generate_metadata now2 mcq_data3 of
                Inl e \<Rightarrow> Inl e
              | Inr metadata \<Rightarrow> Inr (dict_set mcq_data3 ''metadata'' (JObj metadata))))))"

fun is_str_key :: "key \<times> json \<Rightarrow> bool" where
  "is_str_key (KStr s, v) = True"
| "is_str_key _ = False"

text \<open>
  \<^verbatim>\<open>validate_mcq_json\<close>. \<open>response_model\<close> stands for \<^verbatim>\<open>MCQResponse(**mcq_data).dict()\<close>, the schema
  library's validation and dump: \<open>None\<close> is its \<^verbatim>\<open>ValidationError\<close>. The call passes the keys
  of \<^verbatim>\<open>mcq_data\<close> as keyword names and raises \<^verbatim>\<open>TypeError\<close> when one is not a string. The
  handlers turn \<^verbatim>\<open>JSONDecodeError\<close> and every other exception into \<^verbatim>\<open>MCQValidationError\<close>.
\<close>

definition validate_mcq_json ::
  "(string \<Rightarrow> json option) \<Rightarrow> (dict \<Rightarrow> dict option) \<Rightarrow> string \<Rightarrow> string \<Rightarrow> payload
     \<Rightarrow> failure + dict" where
  "validate_mcq_json loads response_model now1 now2 mcq_json_str =
     (case manual_validation loads now1 now2 mcq_json_str of
        Inl JSONDecodeError \<Rightarrow> Inl Invalid_JSON_format
      | Inl e \<Rightarrow> Inl (Error_validating_MCQ_data e)
      | Inr mcq_data \<Rightarrow>
          if \<not> list_all is_str_key mcq_data then Inl (Error_validating_MCQ_data TypeError)
          else (case response_model mcq_data of
                  Some validated_response \<Rightarrow> Inr validated_response
                | None \<Rightarrow> Inr mcq_data))"

section \<open>Request normalization\<close>

text \<open>\<^verbatim>\<open>str.isalnum\<close> on code points below 256.\<close>

definition isalnum_char :: "char \<Rightarrow> bool" where
  "isalnum_char c =
     (let n = (of_char c :: nat) in
        (48 \<le> n \<and> n \<le> 57) \<or> (65 \<le> n \<and> n \<le> 90) \<or> (97 \<le> n \<and> n \<le> 122)
      \<or> n \<in> set [170, 178, 179, 181, 185, 186, 188, 189, 190]
      \<or> (192 \<le> n \<and> n \<le> 214) \<or> (216 \<le> n \<and> n \<le> 246) \<or> (248 \<le> n \<and> n \<le> 255))"

definition isalnum :: "string \<Rightarrow> bool" where
  "isalnum s = (s \<noteq> [] \<and> list_all isalnum_char s)"

definition setdefault :: "dict \<Rightarrow> string \<Rightarrow> json \<Rightarrow> dict" where
  "setdefault d field v = (if dict_has d field then d else dict_set d field v)"

text \<open>
  \<^verbatim>\<open>isinstance(question_count, int)\<close> holds for integers and for booleans, which then
  compare as 0 and 1.
\<close>

fun question_count_in_range :: "json \<Rightarrow> bool" where
  "question_count_in_range (JInt n) = (\<not> (n < 5 \<or> n > 50))"
| "question_count_in_range (JBool b) = (\<not> ((if b then 1 else 0 :: int) < 5 \<or> (if b then 1 else 0 :: int) > 50))"
| "question_count_in_range _ = False"

text \<open>
  \<^verbatim>\<open>validate_request_data\<close>. \<^verbatim>\<open>username.replace\<close> raises \<^verbatim>\<open>AttributeError\<close> when the username
  is not a string.
\<close>

definition validate_request_data :: "dict \<Rightarrow> failure + dict" where
  "validate_request_data request_data =
     (case find (\<lambda>field. \<not> dict_has request_data field
                          \<or> \<not> truthy (get_or_none request_data field))
                [''username'', ''topic''] of
        Some field \<Rightarrow>
          Inl (Invalid_request_data (MCQValidationError (Missing_or_empty_required_field field)))
      | None \<Rightarrow>
          (case get_or_none request_data ''username'' of
             JStr username \<Rightarrow>
               if \<not> isalnum (filter (\<lambda>c. c \<noteq> CHR ''-'') (filter (\<lambda>c. c \<noteq> CHR ''_'') username))
               then Inl (Invalid_request_data (MCQValidationError Username_format))
               else
                 (let request_data1 = setdefault request_data ''difficulty'' (JStr ''mixed'');
                      request_data2 = setdefault request_data1 ''question_count'' (JInt 20);
                      request_data3 = setdefault request_data2 ''include_roadmap'' (JBool True);
                      request_data4 = setdefault request_data3 ''include_videos'' (JBool True);
                      question_count =
                        (case dict_get request_data4 ''question_count'' of
                           None \<Rightarrow> JInt 20 | Some v \<Rightarrow> v)
                  in Inr (if \<not> question_count_in_range question_count
                          then dict_set request_data4 ''question_count'' (JInt 20)
                          else request_data4))
           | _ \<Rightarrow> Inl (Invalid_request_data AttributeError)))"

section \<open>Reading an option's flag\<close>

text \<open>
  The value of an option's \<^verbatim>\<open>is_correct\<close>, whether the code counts the option as correct
  (a truthy flag), and whether the flag is the boolean \<^verbatim>\<open>True\<close>.
\<close>

definition flag_of :: "json \<Rightarrow> json option" where
  "flag_of opt = (case opt of JObj d \<Rightarrow> dict_get d ''is_correct'' | _ \<Rightarrow> None)"

definition marked_correct :: "json \<Rightarrow> bool" where
  "marked_correct opt = (case opt of JObj d \<Rightarrow> is_correct d | _ \<Rightarrow> False)"

definition flag_is_true :: "json \<Rightarrow> bool" where
  "flag_is_true opt = (flag_of opt = Some (JBool True))"

section \<open>The schema models\<close>

text \<open>
  The models of \<^verbatim>\<open>models.py\<close> as functions from a raw value to its dump (\<^verbatim>\<open>.dict()\<close>), \<open>None\<close>
  being a \<^verbatim>\<open>ValidationError\<close>. They follow the declarations field by field under three
  assumptions about the schema library: a value must already have the declared type (no
  coercion), keys that are not declared are ignored, and the dump lists the declared
  fields in their order with defaults filled in.
\<close>

definition str_field :: "nat \<Rightarrow> nat option \<Rightarrow> json option \<Rightarrow> json option" where
  "str_field min_length max_length v =
     (case v of
        Some (JStr s) \<Rightarrow>
          if min_length \<le> length s \<and> (case max_length of None \<Rightarrow> True | Some m \<Rightarrow> length s \<le> m)
          then Some (JStr s) else None
      | _ \<Rightarrow> None)"

definition optional_str_field :: "nat option \<Rightarrow> json option \<Rightarrow> json option" where
  "optional_str_field max_length v =
     (case v of
        None \<Rightarrow> Some JNull
      | Some JNull \<Rightarrow> Some JNull
      | _ \<Rightarrow> str_field 0 max_length v)"

definition int_field_ge :: "int \<Rightarrow> json option \<Rightarrow> json option" where
  "int_field_ge lo v =
     (case v of Some (JInt n) \<Rightarrow> if lo \<le> n then Some (JInt n) else None | _ \<Rightarrow> None)"

definition bool_field :: "json option \<Rightarrow> json option" where
  "bool_field v = (case v of Some (JBool b) \<Rightarrow> Some (JBool b) | _ \<Rightarrow> None)"

definition DifficultyLevel :: "json option \<Rightarrow> json option" where
  "DifficultyLevel v =
     (case v of
        Some (JStr s) \<Rightarrow>
          if s \<in> set [''basic'', ''intermediate'', ''advanced'', ''mixed'']
          then Some (JStr s) else None
      | _ \<Rightarrow> None)"

definition list_field :: "(json \<Rightarrow> json option) \<Rightarrow> json option \<Rightarrow> json list option" where
  "list_field model v = (case v of Some (JList xs) \<Rightarrow> those (map model xs) | _ \<Rightarrow> None)"

definition optional_list_field :: "(json \<Rightarrow> json option) \<Rightarrow> json option \<Rightarrow> json option" where
  "optional_list_field model v =
     (case v of
        None \<Rightarrow> Some JNull
      | Some JNull \<Rightarrow> Some JNull
      | _ \<Rightarrow> map_option JList (list_field model v))"

definition require :: "bool \<Rightarrow> unit option" where
  "require b = (if b then Some () else None)"

fun MCQOption :: "json \<Rightarrow> json option" where
  "MCQOption (JObj d) = do {
     text \<leftarrow> str_field 1 (Some 500) (dict_get d ''option'');
     correct \<leftarrow> bool_field (dict_get d ''is_correct'');
     Some (JObj [(KStr ''option'', text), (KStr ''is_correct'', correct)]) }"
| "MCQOption _ = None"

fun RoadmapStep :: "json \<Rightarrow> json option" where
  "RoadmapStep (JObj d) = do {
     step_number \<leftarrow> int_field_ge 1 (dict_get d ''step_number'');
     title \<leftarrow> str_field 1 (Some 200) (dict_get d ''title'');
     description \<leftarrow> str_field 1 (Some 1000) (dict_get d ''description'');
     estimated_duration \<leftarrow> str_field 0 None (dict_get d ''estimated_duration'');
     prerequisites \<leftarrow>
       (case dict_get d ''prerequisites'' of
          None \<Rightarrow> Some []
        | v \<Rightarrow> list_field (\<lambda>x. str_field 0 None (Some x)) v);
     Some (JObj [(KStr ''step_number'', step_number), (KStr ''title'', title),
                 (KStr ''description'', description),
                 (KStr ''estimated_duration'', estimated_duration),
                 (KStr ''prerequisites'', JList prerequisites)]) }"
| "RoadmapStep _ = None"

text \<open>The \<^verbatim>\<open>validate_url\<close> validator is the condition on \<open>url\<close>.\<close>

fun ReferenceVideo :: "json \<Rightarrow> json option" where
  "ReferenceVideo (JObj d) = do {
     title \<leftarrow> str_field 1 (Some 200) (dict_get d ''title'');
     url \<leftarrow>
       (case dict_get d ''url'' of
          Some (JStr v) \<Rightarrow>
            if \<not> (startswith v ''http://'' \<or> startswith v ''https://'') then None
            else Some (JStr v)
        | _ \<Rightarrow> None);
     duration \<leftarrow> optional_str_field None (dict_get d ''duration'');
     difficulty_level \<leftarrow> DifficultyLevel (dict_get d ''difficulty_level'');
     description \<leftarrow> optional_str_field (Some 500) (dict_get d ''description'');
     Some (JObj [(KStr ''title'', title), (KStr ''url'', url), (KStr ''duration'', duration),
                 (KStr ''difficulty_level'', difficulty_level),
                 (KStr ''description'', description)]) }"
| "ReferenceVideo _ = None"

text \<open>The \<^verbatim>\<open>validate_options\<close> validator counts the options whose flag is true.\<close>

fun MCQQuestion :: "json \<Rightarrow> json option" where
  "MCQQuestion (JObj d) = do {
     question_id \<leftarrow> int_field_ge 1 (dict_get d ''question_id'');
     question_text \<leftarrow> str_field 10 (Some 1000) (dict_get d ''question_text'');
     explanation \<leftarrow> str_field 10 (Some 2000) (dict_get d ''explanation'');
     options \<leftarrow> list_field MCQOption (dict_get d ''options'');
     _ \<leftarrow> require (length options = 4);
     _ \<leftarrow> require (length (filter (\<lambda>v. flag_is_true v) options) = 1);
     difficulty \<leftarrow> DifficultyLevel (dict_get d ''difficulty'');
     topic_area \<leftarrow> optional_str_field None (dict_get d ''topic_area'');
     Some (JObj [(KStr ''question_id'', question_id), (KStr ''question_text'', question_text),
                 (KStr ''explanation'', explanation), (KStr ''options'', JList options),
                 (KStr ''difficulty'', difficulty), (KStr ''topic_area'', topic_area)]) }"
| "MCQQuestion _ = None"

definition MCQResponse :: "dict \<Rightarrow> dict option" where
  "MCQResponse d = do {
     username \<leftarrow> str_field 0 None (dict_get d ''username'');
     topic \<leftarrow> str_field 0 None (dict_get d ''topic'');
     timestamp \<leftarrow> str_field 0 None (dict_get d ''timestamp'');
     questions \<leftarrow> list_field MCQQuestion (dict_get d ''questions'');
     roadmap \<leftarrow> optional_list_field RoadmapStep (dict_get d ''roadmap'');
     reference_videos \<leftarrow> optional_list_field ReferenceVideo (dict_get d ''reference_videos'');
     metadata \<leftarrow>
       (case dict_get d ''metadata'' of
          None \<Rightarrow> Some (JObj [])
        | Some (JObj m) \<Rightarrow> if list_all is_str_key m then Some (JObj m) else None
        | _ \<Rightarrow> None);
     Some [(KStr ''username'', username), (KStr ''topic'', topic),
           (KStr ''timestamp'', timestamp), (KStr ''questions'', JList questions),
           (KStr ''roadmap'', roadmap), (KStr ''reference_videos'', reference_videos),
           (KStr ''metadata'', metadata)] }"

section \<open>Notions used to state the properties\<close>

text \<open>
  The first four raw options, followed by the placeholders \<^verbatim>\<open>Option N\<close> for the positions
  that the raw list leaves empty.
\<close>

definition shaped :: "json list \<Rightarrow> json list" where
  "shaped raw = take 4 raw @ map synthetic_option [Suc (length raw)..<5]"

text \<open>An option without its \<^verbatim>\<open>is_correct\<close> entry.\<close>

fun without_flag :: "json \<Rightarrow> json" where
  "without_flag (JObj d) = JObj (AList.delete (KStr ''is_correct'') d)"
| "without_flag v = v"

text \<open>
  The outcome of the per-question repair for each raw question at its index, and the
  repaired questions among these outcomes, in order.
\<close>

definition per_question_repairs :: "json list \<Rightarrow> (exn + dict) list" where
  "per_question_repairs questions =
     map (\<lambda>iq. validate_question (fst iq) (snd iq)) (List.enumerate 0 questions)"

definition surviving_questions :: "json list \<Rightarrow> dict list" where
  "surviving_questions questions =
     map projr (filter (\<lambda>r. \<not> isl r) (per_question_repairs questions))"

fun isinstance_dict :: "json \<Rightarrow> bool" where
  "isinstance_dict (JObj d) = True"
| "isinstance_dict _ = False"

text \<open>
  The checks of \<^verbatim>\<open>validate_request_data\<close> on \<^verbatim>\<open>username\<close> and \<^verbatim>\<open>topic\<close>: both present and
  truthy, the username a string that is alphanumeric once its hyphens and underscores
  are removed.
\<close>

definition username_topic_ok :: "dict \<Rightarrow> bool" where
  "username_topic_ok request =
     (truthy (get_or_none request ''username'') \<and> truthy (get_or_none request ''topic'')
      \<and> (case dict_get request ''username'' of
            Some (JStr username) \<Rightarrow>
              isalnum (filter (\<lambda>c. c \<noteq> CHR ''-'') (filter (\<lambda>c. c \<noteq> CHR ''_'') username))
          | _ \<Rightarrow> False))"

text \<open>
  The key under which \<^verbatim>\<open>_generate_metadata\<close> counts a question, the number of questions
  counted under a key, and the metadata dict that the payload supplies: none, or the
  value of \<^verbatim>\<open>metadata\<close> when that is a dict.
\<close>

definition difficulty_key :: "dict \<Rightarrow> exn + key" where
  "difficulty_key question =
     hash_key (case dict_get question ''difficulty'' of None \<Rightarrow> JStr ''unknown'' | Some v \<Rightarrow> v)"

definition difficulty_count :: "dict list \<Rightarrow> key \<Rightarrow> nat" where
  "difficulty_count questions k = length (filter (\<lambda>q. difficulty_key q = Inr k) questions)"

fun supplied_metadata :: "json option \<Rightarrow> dict option" where
  "supplied_metadata None = Some []"
| "supplied_metadata (Some (JObj m)) = Some m"
| "supplied_metadata (Some _) = None"

text \<open>
  A value that has a length, and a collection field that \<^verbatim>\<open>len\<close> accepts: absent (the
  code then takes the empty list), or a value that has a length.
\<close>

fun has_len :: "json \<Rightarrow> bool" where
  "has_len (JList xs) = True"
| "has_len (JStr s) = True"
| "has_len (JObj d) = True"
| "has_len _ = False"

definition absent_or_sized :: "json option \<Rightarrow> bool" where
  "absent_or_sized v = (case v of None \<Rightarrow> True | Some x \<Rightarrow> has_len x)"


text \<open>The raw questions of a payload whose \<^verbatim>\<open>questions\<close> is a list.\<close>

definition raw_questions :: "dict \<Rightarrow> json list" where
  "raw_questions d = (case dict_get d ''questions'' of Some (JList qs) \<Rightarrow> qs | _ \<Rightarrow> [])"

text \<open>
  The payload after the repair of its questions, roadmap and reference videos, as it is
  handed to \<^verbatim>\<open>_generate_metadata\<close>.
\<close>

definition before_metadata :: "string \<Rightarrow> dict \<Rightarrow> dict" where
  "before_metadata now1 d =
     (let d1 = (if dict_has d ''timestamp'' then d else dict_set d ''timestamp'' (JStr now1));
          d2 = dict_set d1 ''questions''
                 (JList (map JObj (surviving_questions (raw_questions d))));
          d3 = (if truthy (get_or_none d2 ''roadmap'')
                then dict_set d2 ''roadmap''
                       (JList (map JObj (validate_roadmap (get_or_none d2 ''roadmap''))))
                else d2)
      in if truthy (get_or_none d3 ''reference_videos'')
         then dict_set d3 ''reference_videos''
                (JList (map JObj (validate_reference_videos
                                    (get_or_none d3 ''reference_videos''))))
         else d3)"

text \<open>
  A stand-in for \<^verbatim>\<open>json.loads\<close> in examples whose payload is a dict, where the parser is
  not called.
\<close>

definition loads_not_called :: "string \<Rightarrow> json option" where
  "loads_not_called s = None"





section \<open>Lemmas on dicts and lists\<close>

declare pad_options.simps [simp del]
declare show_nat.simps [simp del]

lemma dict_get_dict_set:
  "dict_get (dict_set d k v) k' = (if k' = k then Some v else dict_get d k')"
  by (simp add: dict_get_def dict_set_def update_conv')

lemma dict_has_dict_set:
  "dict_has (dict_set d k v) k' = (k' = k \<or> dict_has d k')"
  by (simp add: dict_has_def dict_set_def update_conv')

lemma dict_has_get: "dict_has d k = (dict_get d k \<noteq> None)"
  by (simp add: dict_has_def dict_get_def)



lemma first_index_Some:
  "first_index P xs = Some i \<Longrightarrow> i < length xs \<and> P (xs ! i) \<and> (\<forall>j<i. \<not> P (xs ! j))"
proof (induction xs arbitrary: i)
  case Nil
  then show ?case by simp
next
  case (Cons x xs)
  show ?case
  proof (cases "P x")
    case True
    with Cons.prems show ?thesis by simp
  next
    case False
    with Cons.prems obtain k where k: "first_index P xs = Some k" "i = Suc k"
      by auto
    from Cons.IH [OF k(1)] k(2) False show ?thesis
      by (auto simp: less_Suc_eq_0_disj)
  qed
qed

lemma filter_single_update:
  "\<forall>x\<in>set xs. \<not> P x \<Longrightarrow> i < length xs \<Longrightarrow> P y \<Longrightarrow> filter P (xs[i := y]) = [y]"
proof (induction xs arbitrary: i)
  case Nil
  then show ?case by simp
next
  case (Cons x xs)
  then show ?case by (cases i) auto
qed

section \<open>Lemmas on option repair\<close>

lemma pad_options_eq:
  "length xs \<le> 4 \<Longrightarrow> pad_options xs = xs @ map synthetic_option [Suc (length xs)..<5]"
proof (induction xs rule: pad_options.induct)
  case (1 options)
  show ?case
  proof (cases "length options < 4")
    case True
    then have "pad_options options = pad_options (options @ [synthetic_option (length options + 1)])"
      by (subst pad_options.simps) simp
    also have "\<dots> = (options @ [synthetic_option (length options + 1)])
                      @ map synthetic_option [Suc (Suc (length options))..<5]"
      using "1.IH" [OF True] True by simp
    also have "\<dots> = options @ map synthetic_option [Suc (length options)..<5]"
      using True by (simp add: upt_conv_Cons)
    finally show ?thesis .
  next
    case False
    with "1.prems" have "length options = 4" by simp
    then show ?thesis by (subst pad_options.simps) simp
  qed
qed

lemma length_shaped: "length (shaped raw) = 4"
  by (auto simp: shaped_def min_def)

lemma shape_step:
  "(if length raw \<noteq> 4 then
      (if length raw < 4 then pad_options raw
       else if length raw > 4 then take 4 raw else raw)
    else raw) = shaped raw"
  by (auto simp: shaped_def pad_options_eq)

lemma the_dicts_Inr: "the_dicts xs = Inr ds \<Longrightarrow> xs = map JObj ds"
  by (induction xs arbitrary: ds rule: the_dicts.induct) (auto split: sum.splits)


lemma filter_marked_JObj: "filter marked_correct (map JObj ds) = map JObj (filter is_correct ds)"
  by (induction ds) (auto simp: marked_correct_def)

lemma filter_true_JObj:
  "filter flag_is_true (map JObj ds)
     = map JObj (filter (\<lambda>d. dict_get d ''is_correct'' = Some (JBool True)) ds)"
  by (induction ds) (auto simp: flag_is_true_def flag_of_def)

lemma delete_flag_set:
  "AList.delete (KStr ''is_correct'') (dict_set d ''is_correct'' v)
     = AList.delete (KStr ''is_correct'') d"
  by (simp add: dict_set_def delete_update_same)

lemma is_correct_set: "is_correct (dict_set d ''is_correct'' v) = truthy v"
  by (simp add: is_correct_def dict_get_dict_set)

text \<open>Resetting every flag and then setting the one at index \<open>i\<close>.\<close>

lemma set_one_flag:
  assumes i: "i < length opts"
  defines "reset \<equiv> map (\<lambda>opt. dict_set opt ''is_correct'' (JBool False)) opts"
  defines "out \<equiv> map JObj (reset[i := dict_set (reset ! i) ''is_correct'' (JBool True)])"
  shows "length out = length opts"
    and "length (filter marked_correct out) = 1"
    and "map without_flag out = map without_flag (map JObj opts)"
    and "length (filter flag_is_true out) = 1"
    and "\<forall>j<length opts. flag_of (out ! j) = Some (JBool (j = i))"
proof -
  have len: "length reset = length opts"
    by (simp add: reset_def)
  show "length out = length opts"
    by (simp add: out_def len)
  have "\<forall>x\<in>set reset. \<not> is_correct x"
    by (auto simp: reset_def is_correct_set)
  then have "filter is_correct (reset[i := dict_set (reset ! i) ''is_correct'' (JBool True)])
               = [dict_set (reset ! i) ''is_correct'' (JBool True)]"
    using i len by (intro filter_single_update) (simp_all add: is_correct_set)
  then show "length (filter marked_correct out) = 1"
    by (simp add: out_def filter_marked_JObj)
  have "\<forall>x\<in>set reset. \<not> dict_get x ''is_correct'' = Some (JBool True)"
    by (auto simp: reset_def dict_get_dict_set)
  then have "filter (\<lambda>d. dict_get d ''is_correct'' = Some (JBool True))
                 (reset[i := dict_set (reset ! i) ''is_correct'' (JBool True)])
               = [dict_set (reset ! i) ''is_correct'' (JBool True)]"
    using i len by (intro filter_single_update) (simp_all add: dict_get_dict_set)
  then show "length (filter flag_is_true out) = 1"
    by (simp add: out_def filter_true_JObj)
  show "map without_flag out = map without_flag (map JObj opts)"
  proof (rule nth_equalityI)
    show "length (map without_flag out) = length (map without_flag (map JObj opts))"
      by (simp add: out_def len)
  next
    fix j assume "j < length (map without_flag out)"
    then have j: "j < length opts" by (simp add: out_def len)
    then show "map without_flag out ! j = map without_flag (map JObj opts) ! j"
      using len by (cases "j = i") (simp_all add: out_def reset_def delete_flag_set)
  qed
  show "\<forall>j<length opts. flag_of (out ! j) = Some (JBool (j = i))"
  proof (intro allI impI)
    fix j assume j: "j < length opts"
    then show "flag_of (out ! j) = Some (JBool (j = i))"
      using len by (cases "j = i") (simp_all add: out_def reset_def flag_of_def dict_get_dict_set)
  qed
qed

lemma validate_question_options_Inr:
  assumes ok: "validate_question_options (JList raw) = Inr out"
  shows "length out = 4"
    and "length (filter marked_correct out) = 1"
    and "map without_flag out = map without_flag (shaped raw)"
    and "length (filter marked_correct (shaped raw)) = 1 \<longrightarrow> out = shaped raw"
    and "length (filter marked_correct (shaped raw)) \<noteq> 1 \<longrightarrow>
           length (filter flag_is_true out) = 1
         \<and> (\<forall>j<4. flag_of (out ! j) = Some (JBool True) \<or> flag_of (out ! j) = Some (JBool False))"
proof -
  from ok obtain opts where opts: "the_dicts (shaped raw) = Inr opts"
    by (cases "the_dicts (shaped raw)") (simp_all add: shape_step)
  then have sh: "shaped raw = map JObj opts"
    by (rule the_dicts_Inr)
  then have len: "length opts = 4"
    using length_shaped [of raw] by simp
  have cnt: "filter marked_correct (shaped raw) = map JObj (filter is_correct opts)"
    by (simp add: sh filter_marked_JObj)
  let ?reset = "map (\<lambda>opt. dict_set opt ''is_correct'' (JBool False)) opts"
  have "length out = 4 \<and> length (filter marked_correct out) = 1
        \<and> map without_flag out = map without_flag (shaped raw)
        \<and> (length (filter marked_correct (shaped raw)) = 1 \<longrightarrow> out = shaped raw)
        \<and> (length (filter marked_correct (shaped raw)) \<noteq> 1 \<longrightarrow>
             length (filter flag_is_true out) = 1
           \<and> (\<forall>j<4. flag_of (out ! j) = Some (JBool True) \<or> flag_of (out ! j) = Some (JBool False)))"
  proof (cases "length (filter is_correct opts) = 1")
    case True
    with ok opts have "out = map JObj opts"
      by (simp add: shape_step)
    with True show ?thesis
      by (simp add: sh filter_marked_JObj len)
  next
    case False
    have "\<exists>i<4. out = map JObj (?reset[i := dict_set (?reset ! i) ''is_correct'' (JBool True)])"
    proof (cases "filter is_correct opts = []")
      case True
      with ok opts False
      have "out = map JObj (?reset[0 := dict_set (?reset ! 0) ''is_correct'' (JBool True)])"
        by (simp add: shape_step Let_def)
      then show ?thesis by (intro exI [of _ 0]) simp
    next
      case nonempty: False
      with ok opts False obtain i where
        fi: "first_index (\<lambda>opt. list_ex (\<lambda>co. py_eq (get_or_none co ''option'')
                                               (get_or_none opt ''option''))
                                 (filter is_correct opts)) ?reset = Some i"
        and out: "out = map JObj (?reset[i := dict_set (?reset ! i) ''is_correct'' (JBool True)])"
        by (auto simp: shape_step Let_def split: option.splits)
      from first_index_Some [OF fi] have "i < 4" by (simp add: len)
      with out show ?thesis by blast
    qed
    then obtain i where i: "i < 4"
      and out: "out = map JObj (?reset[i := dict_set (?reset ! i) ''is_correct'' (JBool True)])"
      by blast
    from i len have il: "i < length opts" by simp
    note s = set_one_flag [OF il, folded out]
    from s(1) len have "length out = 4" by simp
    moreover note s(2)
    moreover from s(3) have "map without_flag out = map without_flag (shaped raw)"
      by (simp add: sh)
    moreover from False have "length (filter marked_correct (shaped raw)) \<noteq> 1"
      by (simp add: cnt)
    moreover note s(4)
    moreover from s(5) len
    have "\<forall>j<4. flag_of (out ! j) = Some (JBool True) \<or> flag_of (out ! j) = Some (JBool False)"
      by auto
    ultimately show ?thesis by simp
  qed
  then show "length out = 4"
    and "length (filter marked_correct out) = 1"
    and "map without_flag out = map without_flag (shaped raw)"
    and "length (filter marked_correct (shaped raw)) = 1 \<longrightarrow> out = shaped raw"
    and "length (filter marked_correct (shaped raw)) \<noteq> 1 \<longrightarrow>
           length (filter flag_is_true out) = 1
         \<and> (\<forall>j<4. flag_of (out ! j) = Some (JBool True) \<or> flag_of (out ! j) = Some (JBool False))"
    by simp_all
qed

section \<open>Lemmas on question repair\<close>

lemma required_present:
  "find (\<lambda>field. \<not> dict_has
                      (if \<not> dict_has d ''question_id''
                       then dict_set d ''question_id'' v else d) field)
        [''question_text'', ''explanation'', ''options'', ''difficulty''] = None
   \<longleftrightarrow> dict_has d ''question_text'' \<and> dict_has d ''explanation''
       \<and> dict_has d ''options'' \<and> dict_has d ''difficulty''"
  by (simp add: dict_has_dict_set)

lemma validate_question_Inr:
  assumes "validate_question i raw = Inr q"
  shows "\<exists>d opts out.
           raw = JObj d
         \<and> dict_get d ''options'' = Some (JList opts)
         \<and> validate_question_options (JList opts) = Inr out
         \<and> dict_get q ''options'' = Some (JList out)
         \<and> dict_get q ''difficulty'' = dict_get d ''difficulty''
         \<and> dict_get d ''difficulty'' \<noteq> None"
proof (cases raw)
  case (JObj d)
  define question where
    "question = (if \<not> dict_has d ''question_id''
                 then dict_set d ''question_id'' (JInt (int i + 1)) else d)"
  have unfold: "validate_question i (JObj d) =
     (case find (\<lambda>field. \<not> dict_has question field)
                [''question_text'', ''explanation'', ''options'', ''difficulty''] of
        Some field \<Rightarrow> Inl (MCQValidationError (Question_missing_field field))
      | None \<Rightarrow>
         (case validate_question_options
                 (case dict_get question ''options'' of None \<Rightarrow> JList [] | Some v \<Rightarrow> v) of
            Inl e \<Rightarrow> Inl e
          | Inr opts \<Rightarrow>
             (let question1 = dict_set question ''options'' (JList opts) in
              Inr (if \<not> dict_has question1 ''topic_area''
                   then dict_set question1 ''topic_area'' (JStr ''General'')
                   else question1))))"
    unfolding question_def by (simp only: validate_question.simps Let_def)
  from assms JObj have run: "validate_question i (JObj d) = Inr q"
    by simp
  from run [unfolded unfold]
  have nf: "find (\<lambda>field. \<not> dict_has question field)
              [''question_text'', ''explanation'', ''options'', ''difficulty''] = None"
    by (cases "find (\<lambda>field. \<not> dict_has question field)
              [''question_text'', ''explanation'', ''options'', ''difficulty'']") simp_all
  then have has: "dict_has d ''options''" "dict_has d ''difficulty''"
    unfolding question_def by (simp_all only: required_present)
  then obtain v where v: "dict_get d ''options'' = Some v"
    by (auto simp: dict_has_get)
  then have qv: "dict_get question ''options'' = Some v"
    by (simp add: question_def dict_get_dict_set)
  from run [unfolded unfold] nf qv obtain out where
    out: "validate_question_options v = Inr out"
    and q: "q = (let question1 = dict_set question ''options'' (JList out) in
                 if \<not> dict_has question1 ''topic_area''
                 then dict_set question1 ''topic_area'' (JStr ''General'') else question1)"
    by (cases "validate_question_options v") (simp_all add: Let_def)
  from out obtain opts where opts: "v = JList opts"
    by (cases v) simp_all
  from q have "dict_get q ''options'' = Some (JList out)"
    and "dict_get q ''difficulty'' = dict_get d ''difficulty''"
    by (simp_all add: Let_def dict_get_dict_set question_def)
  with JObj v out opts has(2) show ?thesis
    by (simp add: dict_has_get)
qed (use assms in simp_all)

lemma validate_question_missing:
  assumes "field \<in> set [''question_text'', ''explanation'', ''options'', ''difficulty'']"
    and "\<not> dict_has d field"
  shows "isl (validate_question i (JObj d))"
proof -
  let ?question = "if \<not> dict_has d ''question_id''
                   then dict_set d ''question_id'' (JInt (int i + 1)) else d"
  from assms have "find (\<lambda>field. \<not> dict_has ?question field)
                   [''question_text'', ''explanation'', ''options'', ''difficulty''] \<noteq> None"
    by (simp only: required_present) auto
  then show ?thesis
    by (simp only: validate_question.simps Let_def) (auto split: option.splits)
qed

lemma validate_questions_loop_eq:
  "validate_questions_loop i questions acc
     = acc @ map projr (filter (\<lambda>r. \<not> isl r)
                         (map (\<lambda>iq. validate_question (fst iq) (snd iq))
                              (List.enumerate i questions)))"
proof (induction questions arbitrary: i acc)
  case Nil
  then show ?case by simp
next
  case (Cons q qs)
  then show ?case
    by (cases "validate_question i q") simp_all
qed

lemma validate_questions_eq:
  "validate_questions questions =
     (if surviving_questions questions = []
      then Inl (MCQValidationError No_valid_questions_found)
      else Inr (surviving_questions questions))"
  by (simp add: validate_questions_def surviving_questions_def per_question_repairs_def
        validate_questions_loop_eq Let_def)


section \<open>Properties of the repair of questions and options\<close>

text \<open>
  C1, as the code has it. A raw question that survives repair has an options list; the
  repaired list has exactly four options and exactly one of them is counted as correct,
  that is, has a truthy \<^verbatim>\<open>is_correct\<close>. Flags aside, the repaired options are the first four
  raw ones followed by the placeholders \<^verbatim>\<open>Option N\<close> for the missing positions. When
  exactly one of these already has a truthy flag, they are returned as they are, whatever
  value that flag has; otherwise every flag of the result is a boolean and exactly one
  is \<^verbatim>\<open>True\<close>.
\<close>

theorem repaired_options_invariant:
  assumes "validate_question i raw = Inr q"
  shows "\<exists>d opts out.
           raw = JObj d
         \<and> dict_get d ''options'' = Some (JList opts)
         \<and> dict_get q ''options'' = Some (JList out)
         \<and> length out = 4
         \<and> length (filter marked_correct out) = 1
         \<and> map without_flag out = map without_flag (shaped opts)
         \<and> (length (filter marked_correct (shaped opts)) = 1 \<longrightarrow> out = shaped opts)
         \<and> (length (filter marked_correct (shaped opts)) \<noteq> 1 \<longrightarrow>
               length (filter flag_is_true out) = 1
             \<and> (\<forall>j<4. flag_of (out ! j) = Some (JBool True)
                      \<or> flag_of (out ! j) = Some (JBool False)))"
proof -
  from validate_question_Inr [OF assms] obtain d opts out where
    "raw = JObj d" "dict_get d ''options'' = Some (JList opts)"
    "validate_question_options (JList opts) = Inr out"
    "dict_get q ''options'' = Some (JList out)"
    by blast
  with validate_question_options_Inr [of opts out] show ?thesis
    by blast
qed

text \<open>
  The end-to-end scenario of the specification: two raw options, both marked correct.
\<close>

theorem repaired_options_invariant_witness:
  "validate_question 0
     (JObj [(KStr ''question_text'', JStr ''Q?''), (KStr ''explanation'', JStr ''E''),
            (KStr ''options'',
               JList [JObj [(KStr ''option'', JStr ''A''), (KStr ''is_correct'', JBool True)],
                      JObj [(KStr ''option'', JStr ''B''), (KStr ''is_correct'', JBool True)]]),
            (KStr ''difficulty'', JStr ''basic'')])
   = Inr [(KStr ''question_text'', JStr ''Q?''), (KStr ''explanation'', JStr ''E''),
          (KStr ''options'',
             JList [JObj [(KStr ''option'', JStr ''A''), (KStr ''is_correct'', JBool True)],
                    JObj [(KStr ''option'', JStr ''B''), (KStr ''is_correct'', JBool False)],
                    JObj [(KStr ''option'', JStr ''Option 3''), (KStr ''is_correct'', JBool False)],
                    JObj [(KStr ''option'', JStr ''Option 4''), (KStr ''is_correct'', JBool False)]]),
          (KStr ''difficulty'', JStr ''basic''), (KStr ''question_id'', JInt 1),
          (KStr ''topic_area'', JStr ''General'')]
   \<and> length (filter flag_is_true
        [JObj [(KStr ''option'', JStr ''A''), (KStr ''is_correct'', JBool True)],
         JObj [(KStr ''option'', JStr ''B''), (KStr ''is_correct'', JBool False)],
         JObj [(KStr ''option'', JStr ''Option 3''), (KStr ''is_correct'', JBool False)],
         JObj [(KStr ''option'', JStr ''Option 4''), (KStr ''is_correct'', JBool False)]]) = 1"
proof -
  let ?raw = "JObj [(KStr ''question_text'', JStr ''Q?''), (KStr ''explanation'', JStr ''E''),
            (KStr ''options'',
               JList [JObj [(KStr ''option'', JStr ''A''), (KStr ''is_correct'', JBool True)],
                      JObj [(KStr ''option'', JStr ''B''), (KStr ''is_correct'', JBool True)]]),
            (KStr ''difficulty'', JStr ''basic'')]"
  let ?q = "[(KStr ''question_text'', JStr ''Q?''), (KStr ''explanation'', JStr ''E''),
          (KStr ''options'',
             JList [JObj [(KStr ''option'', JStr ''A''), (KStr ''is_correct'', JBool True)],
                    JObj [(KStr ''option'', JStr ''B''), (KStr ''is_correct'', JBool False)],
                    JObj [(KStr ''option'', JStr ''Option 3''), (KStr ''is_correct'', JBool False)],
                    JObj [(KStr ''option'', JStr ''Option 4''), (KStr ''is_correct'', JBool False)]]),
          (KStr ''difficulty'', JStr ''basic''), (KStr ''question_id'', JInt 1),
          (KStr ''topic_area'', JStr ''General'')]"
  have run: "validate_question 0 ?raw = Inr ?q"
    by code_simp
  have many: "length (filter marked_correct
                (shaped [JObj [(KStr ''option'', JStr ''A''), (KStr ''is_correct'', JBool True)],
                         JObj [(KStr ''option'', JStr ''B''), (KStr ''is_correct'', JBool True)]])) \<noteq> 1"
    by code_simp
  from repaired_options_invariant [OF run] many run show ?thesis
    by (auto simp: dict_get_def)
qed

text \<open>
  C1 as stated fails: a single truthy flag that is not the boolean \<^verbatim>\<open>True\<close> is left as it
  is, and then no option of the repaired question has \<^verbatim>\<open>is_correct = true\<close>.
\<close>

theorem truthy_flag_left_counterexample:
  "validate_question 0
     (JObj [(KStr ''question_text'', JStr ''Q?''), (KStr ''explanation'', JStr ''E''),
            (KStr ''options'',
               JList [JObj [(KStr ''option'', JStr ''A''), (KStr ''is_correct'', JStr ''yes'')],
                      JObj [(KStr ''option'', JStr ''B''), (KStr ''is_correct'', JBool False)],
                      JObj [(KStr ''option'', JStr ''C''), (KStr ''is_correct'', JBool False)],
                      JObj [(KStr ''option'', JStr ''D''), (KStr ''is_correct'', JBool False)]]),
            (KStr ''difficulty'', JStr ''basic'')])
   = Inr [(KStr ''question_text'', JStr ''Q?''), (KStr ''explanation'', JStr ''E''),
          (KStr ''options'',
             JList [JObj [(KStr ''option'', JStr ''A''), (KStr ''is_correct'', JStr ''yes'')],
                    JObj [(KStr ''option'', JStr ''B''), (KStr ''is_correct'', JBool False)],
                    JObj [(KStr ''option'', JStr ''C''), (KStr ''is_correct'', JBool False)],
                    JObj [(KStr ''option'', JStr ''D''), (KStr ''is_correct'', JBool False)]]),
          (KStr ''difficulty'', JStr ''basic''), (KStr ''question_id'', JInt 1),
          (KStr ''topic_area'', JStr ''General'')]
   \<and> length (filter flag_is_true
        [JObj [(KStr ''option'', JStr ''A''), (KStr ''is_correct'', JStr ''yes'')],
         JObj [(KStr ''option'', JStr ''B''), (KStr ''is_correct'', JBool False)],
         JObj [(KStr ''option'', JStr ''C''), (KStr ''is_correct'', JBool False)],
         JObj [(KStr ''option'', JStr ''D''), (KStr ''is_correct'', JBool False)]]) = 0"
  by code_simp

text \<open>
  C3 at an input with a repeated option text. The second and third options are marked
  correct; the index that \<^verbatim>\<open>_validate_question_options\<close> keeps is that of the first option
  whose text equals the text of a correct option, here the first option, which was not
  marked correct.
\<close>

theorem first_correct_searched_by_text:
  "validate_question_options
     (JList [JObj [(KStr ''option'', JStr ''A''), (KStr ''is_correct'', JBool False)],
             JObj [(KStr ''option'', JStr ''A''), (KStr ''is_correct'', JBool True)],
             JObj [(KStr ''option'', JStr ''B''), (KStr ''is_correct'', JBool True)],
             JObj [(KStr ''option'', JStr ''C''), (KStr ''is_correct'', JBool False)]])
   = Inr [JObj [(KStr ''option'', JStr ''A''), (KStr ''is_correct'', JBool True)],
          JObj [(KStr ''option'', JStr ''A''), (KStr ''is_correct'', JBool False)],
          JObj [(KStr ''option'', JStr ''B''), (KStr ''is_correct'', JBool False)],
          JObj [(KStr ''option'', JStr ''C''), (KStr ''is_correct'', JBool False)]]"
  by code_simp

text \<open>
  C4. The result of \<^verbatim>\<open>_validate_questions\<close> is the list of the repaired questions, each
  raw question being repaired on its own at its index and left out when its repair
  raises; the operation fails exactly when that list is empty. A question that lacks
  one of the four required fields is among those whose repair raises.
\<close>

theorem questions_drop_policy:
  "(validate_questions questions = Inl (MCQValidationError No_valid_questions_found)
      \<longleftrightarrow> surviving_questions questions = [])
   \<and> (surviving_questions questions \<noteq> []
      \<longrightarrow> validate_questions questions = Inr (surviving_questions questions))
   \<and> (\<forall>e. validate_questions questions = Inl e \<longrightarrow> e = MCQValidationError No_valid_questions_found)
   \<and> (\<forall>i<length questions. \<forall>d field.
         questions ! i = JObj d
         \<and> field \<in> set [''question_text'', ''explanation'', ''options'', ''difficulty'']
         \<and> \<not> dict_has d field
         \<longrightarrow> isl (per_question_repairs questions ! i))"
proof -
  have "isl (per_question_repairs questions ! i)"
    if "i < length questions" "questions ! i = JObj d"
      "field \<in> set [''question_text'', ''explanation'', ''options'', ''difficulty'']"
      "\<not> dict_has d field" for i d field
  proof -
    from that(1,2) have "per_question_repairs questions ! i = validate_question i (JObj d)"
      by (simp add: per_question_repairs_def nth_enumerate_eq)
    with validate_question_missing [OF that(3,4)] show ?thesis by simp
  qed
  then show ?thesis
    by (auto simp: validate_questions_eq)
qed

theorem questions_drop_policy_witness:
  "validate_questions
     [JObj [(KStr ''question_text'', JStr ''Q1''), (KStr ''options'', JList []),
            (KStr ''difficulty'', JStr ''basic'')],
      JObj [(KStr ''question_text'', JStr ''Q2''), (KStr ''explanation'', JStr ''E''),
            (KStr ''options'', JList []), (KStr ''difficulty'', JStr ''basic'')]]
   = Inr [[(KStr ''question_text'', JStr ''Q2''), (KStr ''explanation'', JStr ''E''),
           (KStr ''options'',
              JList [JObj [(KStr ''option'', JStr ''Option 1''), (KStr ''is_correct'', JBool True)],
                     JObj [(KStr ''option'', JStr ''Option 2''), (KStr ''is_correct'', JBool False)],
                     JObj [(KStr ''option'', JStr ''Option 3''), (KStr ''is_correct'', JBool False)],
                     JObj [(KStr ''option'', JStr ''Option 4''), (KStr ''is_correct'', JBool False)]]),
           (KStr ''difficulty'', JStr ''basic''), (KStr ''question_id'', JInt 2),
           (KStr ''topic_area'', JStr ''General'')]]
   \<and> isl (validate_question 0
        (JObj [(KStr ''question_text'', JStr ''Q1''), (KStr ''options'', JList []),
               (KStr ''difficulty'', JStr ''basic'')]))"
proof -
  let ?bad = "JObj [(KStr ''question_text'', JStr ''Q1''), (KStr ''options'', JList []),
            (KStr ''difficulty'', JStr ''basic'')]"
  let ?good = "JObj [(KStr ''question_text'', JStr ''Q2''), (KStr ''explanation'', JStr ''E''),
            (KStr ''options'', JList []), (KStr ''difficulty'', JStr ''basic'')]"
  note p = questions_drop_policy [of "[?bad, ?good]"]
  have s: "surviving_questions [?bad, ?good]
    = [[(KStr ''question_text'', JStr ''Q2''), (KStr ''explanation'', JStr ''E''),
           (KStr ''options'',
              JList [JObj [(KStr ''option'', JStr ''Option 1''), (KStr ''is_correct'', JBool True)],
                     JObj [(KStr ''option'', JStr ''Option 2''), (KStr ''is_correct'', JBool False)],
                     JObj [(KStr ''option'', JStr ''Option 3''), (KStr ''is_correct'', JBool False)],
                     JObj [(KStr ''option'', JStr ''Option 4''), (KStr ''is_correct'', JBool False)]]),
           (KStr ''difficulty'', JStr ''basic''), (KStr ''question_id'', JInt 2),
           (KStr ''topic_area'', JStr ''General'')]]"
    by code_simp
  have m: "\<not> dict_has [(KStr ''question_text'', JStr ''Q1''), (KStr ''options'', JList []),
            (KStr ''difficulty'', JStr ''basic'')] ''explanation''"
    by code_simp
  have r: "per_question_repairs [?bad, ?good] ! 0 = validate_question 0 ?bad"
    by (simp add: per_question_repairs_def)
  from p have "\<forall>i<length [?bad, ?good]. \<forall>d field.
         [?bad, ?good] ! i = JObj d
         \<and> field \<in> set [''question_text'', ''explanation'', ''options'', ''difficulty'']
         \<and> \<not> dict_has d field
         \<longrightarrow> isl (per_question_repairs [?bad, ?good] ! i)"
    by blast
  then have "isl (per_question_repairs [?bad, ?good] ! 0)"
    using m by (elim allE [of _ 0]) auto
  with p s r show ?thesis
    by simp
qed


section \<open>Properties of the repair of roadmap steps and reference videos\<close>

lemma validate_roadmap_loop_eq:
  "validate_roadmap_loop i steps acc
     = acc @ map projr (filter (\<lambda>r. \<not> isl r)
                         (map (\<lambda>ix. validate_roadmap_step (fst ix) (snd ix))
                              (List.enumerate i steps)))"
proof (induction steps arbitrary: i acc)
  case Nil
  then show ?case by simp
next
  case (Cons x xs)
  then show ?case
    by (cases "validate_roadmap_step i x") simp_all
qed

lemma isl_validate_roadmap_step: "isl (validate_roadmap_step i x) = (\<not> isinstance_dict x)"
  by (cases x) (simp_all add: Let_def)

lemma validate_roadmap_step_fields:
  assumes "validate_roadmap_step i (JObj d) = Inr s"
  shows "dict_get s ''step_number''
           = Some (case dict_get d ''step_number'' of None \<Rightarrow> JInt (int i + 1) | Some n \<Rightarrow> n)"
    and "dict_get s ''prerequisites''
           = Some (case dict_get d ''prerequisites'' of Some (JList ps) \<Rightarrow> JList ps | _ \<Rightarrow> JList [])"
    and "field \<noteq> ''step_number'' \<Longrightarrow> field \<noteq> ''prerequisites''
           \<Longrightarrow> dict_get s field = dict_get d field"
proof -
  define step where
    "step = (if \<not> dict_has d ''step_number''
             then dict_set d ''step_number'' (JInt (int i + 1)) else d)"
  from assms have "Inr (if \<not> dict_has step ''prerequisites''
              then dict_set step ''prerequisites'' (JList [])
              else if \<not> isinstance_list (get_or_none step ''prerequisites'')
              then dict_set step ''prerequisites'' (JList [])
              else step) = (Inr s :: exn + dict)"
    unfolding step_def by (simp only: validate_roadmap_step.simps Let_def)
  then have "(if \<not> dict_has step ''prerequisites''
              then dict_set step ''prerequisites'' (JList [])
              else if \<not> isinstance_list (get_or_none step ''prerequisites'')
              then dict_set step ''prerequisites'' (JList [])
              else step) = s"
    by (simp only: sum.inject)
  then have s: "s = (if \<not> dict_has step ''prerequisites''
              then dict_set step ''prerequisites'' (JList [])
              else if \<not> isinstance_list (get_or_none step ''prerequisites'')
              then dict_set step ''prerequisites'' (JList [])
              else step)"
    by (rule sym)
  have n: "dict_get step ''step_number''
           = Some (case dict_get d ''step_number'' of None \<Rightarrow> JInt (int i + 1) | Some n \<Rightarrow> n)"
    by (auto simp: step_def dict_get_dict_set dict_has_get)
  have p: "dict_get step ''prerequisites'' = dict_get d ''prerequisites''"
    by (simp add: step_def dict_get_dict_set)
  have o: "dict_get step field = dict_get d field" if "field \<noteq> ''step_number''" for field
    using that by (simp add: step_def dict_get_dict_set)
  show "dict_get s ''step_number''
           = Some (case dict_get d ''step_number'' of None \<Rightarrow> JInt (int i + 1) | Some n \<Rightarrow> n)"
    using n by (simp add: s dict_get_dict_set)
  show "dict_get s ''prerequisites''
           = Some (case dict_get d ''prerequisites'' of Some (JList ps) \<Rightarrow> JList ps | _ \<Rightarrow> JList [])"
  proof (cases "dict_get d ''prerequisites''")
    case None
    with p show ?thesis by (simp add: s dict_has_get dict_get_dict_set)
  next
    case (Some v)
    with p show ?thesis
      by (cases v) (simp_all add: s dict_has_get dict_get_dict_set get_or_none_def)
  qed
  show "dict_get s field = dict_get d field"
    if "field \<noteq> ''step_number''" "field \<noteq> ''prerequisites''"
    using that o by (simp add: s dict_get_dict_set)
qed

text \<open>
  C9. Of the elements of a roadmap list, exactly the dicts are steps of the result, and
  each of them is there whether or not it has a \<^verbatim>\<open>title\<close>, a \<^verbatim>\<open>description\<close> or an
  \<^verbatim>\<open>estimated_duration\<close>: its \<^verbatim>\<open>step_number\<close> is its own or else its position counted from 1,
  its \<^verbatim>\<open>prerequisites\<close> are its own when they are a list and the empty list otherwise, and
  every other field is as it was, absent fields staying absent.
\<close>

theorem roadmap_steps_retained:
  "length (validate_roadmap (JList steps)) = length (filter isinstance_dict steps)
   \<and> (\<forall>i<length steps. \<forall>d. steps ! i = JObj d \<longrightarrow>
        (\<exists>s\<in>set (validate_roadmap (JList steps)).
            dict_get s ''step_number''
              = Some (case dict_get d ''step_number'' of
                        None \<Rightarrow> JInt (int i + 1) | Some n \<Rightarrow> n)
          \<and> dict_get s ''prerequisites''
              = Some (case dict_get d ''prerequisites'' of
                        Some (JList ps) \<Rightarrow> JList ps | _ \<Rightarrow> JList [])
          \<and> (\<forall>field. field \<noteq> ''step_number'' \<and> field \<noteq> ''prerequisites''
                \<longrightarrow> dict_get s field = dict_get d field)))"
proof (intro conjI allI impI)
  let ?rs = "map (\<lambda>ix. validate_roadmap_step (fst ix) (snd ix)) (List.enumerate 0 steps)"
  have out: "validate_roadmap (JList steps) = map projr (filter (\<lambda>r. \<not> isl r) ?rs)"
    by (simp add: validate_roadmap_loop_eq)
  have "filter (\<lambda>r. \<not> isl r) ?rs
          = map (\<lambda>ix. validate_roadmap_step (fst ix) (snd ix))
              (filter (\<lambda>ix. isinstance_dict (snd ix)) (List.enumerate 0 steps))"
    by (simp add: filter_map comp_def isl_validate_roadmap_step)
  moreover have "length (filter (\<lambda>ix. isinstance_dict (snd ix)) (List.enumerate 0 steps))
          = length (filter isinstance_dict (map snd (List.enumerate 0 steps)))"
    by (simp add: filter_map comp_def del: map_snd_enumerate)
  ultimately show "length (validate_roadmap (JList steps)) = length (filter isinstance_dict steps)"
    unfolding out by simp
next
  fix i d
  assume i: "i < length steps" and d: "steps ! i = JObj d"
  let ?rs = "map (\<lambda>ix. validate_roadmap_step (fst ix) (snd ix)) (List.enumerate 0 steps)"
  have out: "validate_roadmap (JList steps) = map projr (filter (\<lambda>r. \<not> isl r) ?rs)"
    by (simp add: validate_roadmap_loop_eq)
  obtain s where s: "validate_roadmap_step i (JObj d) = Inr s"
    by (simp add: Let_def)
  from i d have "?rs ! i = Inr s"
    by (simp add: nth_enumerate_eq s del: validate_roadmap_step.simps)
  moreover from i have "?rs ! i \<in> set ?rs"
    by (intro nth_mem) simp
  ultimately have "Inr s \<in> set (filter (\<lambda>r. \<not> isl r) ?rs)"
    by simp
  then have "projr (Inr s :: exn + dict) \<in> set (validate_roadmap (JList steps))"
    unfolding out set_map by (rule imageI)
  then have "s \<in> set (validate_roadmap (JList steps))"
    by simp
  with validate_roadmap_step_fields [OF s]
  show "\<exists>s\<in>set (validate_roadmap (JList steps)).
            dict_get s ''step_number''
              = Some (case dict_get d ''step_number'' of
                        None \<Rightarrow> JInt (int i + 1) | Some n \<Rightarrow> n)
          \<and> dict_get s ''prerequisites''
              = Some (case dict_get d ''prerequisites'' of
                        Some (JList ps) \<Rightarrow> JList ps | _ \<Rightarrow> JList [])
          \<and> (\<forall>field. field \<noteq> ''step_number'' \<and> field \<noteq> ''prerequisites''
                \<longrightarrow> dict_get s field = dict_get d field)"
    by blast
qed

text \<open>A roadmap whose second step has nothing but a title of the wrong type.\<close>

theorem roadmap_steps_retained_witness:
  "validate_roadmap
     (JList [JObj [(KStr ''title'', JStr ''Basics''), (KStr ''description'', JStr ''Start''),
                   (KStr ''estimated_duration'', JStr ''1 week''), (KStr ''step_number'', JInt 1),
                   (KStr ''prerequisites'', JList [])],
             JObj [(KStr ''prerequisites'', JStr ''none'')]])
   = [[(KStr ''title'', JStr ''Basics''), (KStr ''description'', JStr ''Start''),
       (KStr ''estimated_duration'', JStr ''1 week''), (KStr ''step_number'', JInt 1),
       (KStr ''prerequisites'', JList [])],
      [(KStr ''prerequisites'', JList []), (KStr ''step_number'', JInt 2)]]
   \<and> (\<exists>s\<in>set (validate_roadmap
        (JList [JObj [(KStr ''title'', JStr ''Basics''), (KStr ''description'', JStr ''Start''),
                   (KStr ''estimated_duration'', JStr ''1 week''), (KStr ''step_number'', JInt 1),
                   (KStr ''prerequisites'', JList [])],
                JObj [(KStr ''prerequisites'', JStr ''none'')]])).
          dict_get s ''step_number'' = Some (JInt 2)
        \<and> dict_get s ''prerequisites'' = Some (JList [])
        \<and> dict_get s ''title'' = None)"
proof -
  let ?steps = "[JObj [(KStr ''title'', JStr ''Basics''), (KStr ''description'', JStr ''Start''),
                   (KStr ''estimated_duration'', JStr ''1 week''), (KStr ''step_number'', JInt 1),
                   (KStr ''prerequisites'', JList [])],
             JObj [(KStr ''prerequisites'', JStr ''none'')]]"
  have run: "validate_roadmap (JList ?steps)
   = [[(KStr ''title'', JStr ''Basics''), (KStr ''description'', JStr ''Start''),
       (KStr ''estimated_duration'', JStr ''1 week''), (KStr ''step_number'', JInt 1),
       (KStr ''prerequisites'', JList [])],
      [(KStr ''prerequisites'', JList []), (KStr ''step_number'', JInt 2)]]"
    by code_simp
  from roadmap_steps_retained [of ?steps]
  have "\<forall>i<length ?steps. \<forall>d. ?steps ! i = JObj d \<longrightarrow>
        (\<exists>s\<in>set (validate_roadmap (JList ?steps)).
            dict_get s ''step_number''
              = Some (case dict_get d ''step_number'' of
                        None \<Rightarrow> JInt (int i + 1) | Some n \<Rightarrow> n)
          \<and> dict_get s ''prerequisites''
              = Some (case dict_get d ''prerequisites'' of
                        Some (JList ps) \<Rightarrow> JList ps | _ \<Rightarrow> JList [])
          \<and> (\<forall>field. field \<noteq> ''step_number'' \<and> field \<noteq> ''prerequisites''
                \<longrightarrow> dict_get s field = dict_get d field))"
    by (rule conjunct2)
  from this [rule_format, of 1 "[(KStr ''prerequisites'', JStr ''none'')]"]
  obtain s where "s \<in> set (validate_roadmap (JList ?steps))"
    and "dict_get s ''step_number'' = Some (JInt 2)"
    and "dict_get s ''prerequisites'' = Some (JList [])"
    and "\<forall>field. field \<noteq> ''step_number'' \<and> field \<noteq> ''prerequisites''
                \<longrightarrow> dict_get s field = dict_get [(KStr ''prerequisites'', JStr ''none'')] field"
    by (auto simp: dict_get_def)
  moreover from this(4) have "dict_get s ''title'' = None"
    by (simp add: dict_get_def)
  ultimately show ?thesis
    using run by metis
qed

text \<open>
  C2 at a video without a title. The loop over the required fields of
  \<^verbatim>\<open>_validate_reference_videos\<close> logs the missing field and continues with the next field;
  the video goes on to the URL check, passes it, and is appended.
\<close>

theorem video_without_title_kept:
  "validate_reference_videos
     (JList [JObj [(KStr ''url'', JStr ''https://x''), (KStr ''difficulty_level'', JStr ''basic'')]])
   = [[(KStr ''url'', JStr ''https://x''), (KStr ''difficulty_level'', JStr ''basic''),
       (KStr ''duration'', JStr ''Unknown''),
       (KStr ''description'', JStr ''Educational video content'')]]"
  by code_simp

section \<open>Properties of request normalization\<close>

lemma dict_get_setdefault:
  "dict_get (setdefault d k v) k'
     = (if k' = k \<and> dict_get d k = None then Some v else dict_get d k')"
  by (auto simp: setdefault_def dict_has_get dict_get_dict_set)

lemma validate_request_data_ok:
  assumes "username_topic_ok request"
  shows "\<exists>r. validate_request_data request = Inr r
           \<and> dict_get r ''question_count''
               = Some (case dict_get request ''question_count'' of
                         None \<Rightarrow> JInt 20
                       | Some v \<Rightarrow> if question_count_in_range v then v else JInt 20)
           \<and> dict_get r ''difficulty''
               = Some (case dict_get request ''difficulty'' of
                         None \<Rightarrow> JStr ''mixed'' | Some v \<Rightarrow> v)
           \<and> dict_get r ''include_roadmap''
               = Some (case dict_get request ''include_roadmap'' of
                         None \<Rightarrow> JBool True | Some v \<Rightarrow> v)
           \<and> dict_get r ''include_videos''
               = Some (case dict_get request ''include_videos'' of
                         None \<Rightarrow> JBool True | Some v \<Rightarrow> v)"
proof -
  from assms obtain username where
    u: "dict_get request ''username'' = Some (JStr username)"
    and a: "isalnum (filter (\<lambda>c. c \<noteq> CHR ''-'') (filter (\<lambda>c. c \<noteq> CHR ''_'') username))"
    and t: "truthy (get_or_none request ''username'')" "truthy (get_or_none request ''topic'')"
    by (auto simp: username_topic_ok_def split: option.splits json.splits)
  from t have h: "dict_has request ''username''" "dict_has request ''topic''"
    by (auto simp: get_or_none_def dict_has_get split: option.splits)
  from u have g: "get_or_none request ''username'' = JStr username"
    by (simp add: get_or_none_def)
  show ?thesis
    unfolding validate_request_data_def
    using h t a
    by (cases "dict_get request ''question_count''")
       (auto simp: g Let_def dict_get_setdefault dict_get_dict_set split: option.splits)
qed

lemma validate_request_data_fails:
  assumes "\<not> username_topic_ok request"
  shows "isl (validate_request_data request)"
proof (cases "dict_has request ''username'' \<and> truthy (get_or_none request ''username'')
              \<and> dict_has request ''topic'' \<and> truthy (get_or_none request ''topic'')")
  case False
  then show ?thesis
    unfolding validate_request_data_def by auto
next
  case True
  then obtain v where v: "dict_get request ''username'' = Some v"
    by (auto simp: dict_has_get)
  with True assms show ?thesis
    unfolding validate_request_data_def
    by (cases v) (simp_all add: username_topic_ok_def get_or_none_def)
qed

lemma username_topic_ok_question_count:
  "username_topic_ok (dict_set request ''question_count'' v) = username_topic_ok request"
  by (simp add: username_topic_ok_def get_or_none_def dict_get_dict_set)

lemma not_in_range:
  "\<not> (\<exists>n. v = JInt n \<and> 5 \<le> n \<and> n \<le> 50) \<Longrightarrow> \<not> question_count_in_range v"
  by (cases v) auto

text \<open>
  C7. Let the request carry a \<^verbatim>\<open>question_count\<close> that is not an integer from 5 to 50.
  Normalization fails only when the checks on \<^verbatim>\<open>username\<close> and \<^verbatim>\<open>topic\<close> fail, and whether
  it fails stays the same whatever value is put in place of \<^verbatim>\<open>question_count\<close>; when it
  returns, the \<^verbatim>\<open>question_count\<close> of the result is 20.
\<close>

theorem question_count_replaced:
  assumes "dict_get request ''question_count'' = Some v"
    and "\<not> (\<exists>n. v = JInt n \<and> 5 \<le> n \<and> n \<le> 50)"
  shows "(isl (validate_request_data request) \<longleftrightarrow> \<not> username_topic_ok request)
       \<and> (\<forall>v'. isl (validate_request_data (dict_set request ''question_count'' v'))
                 = isl (validate_request_data request))
       \<and> (\<forall>r. validate_request_data request = Inr r
               \<longrightarrow> dict_get r ''question_count'' = Some (JInt 20))"
proof -
  have iff: "isl (validate_request_data d) \<longleftrightarrow> \<not> username_topic_ok d" for d
    using validate_request_data_ok [of d] validate_request_data_fails [of d]
    by (cases "username_topic_ok d") auto
  have "dict_get r ''question_count'' = Some (JInt 20)"
    if r: "validate_request_data request = Inr r" for r
  proof -
    from r iff [of request] have "username_topic_ok request"
      by auto
    from validate_request_data_ok [OF this] r assms(1) not_in_range [OF assms(2)]
    show ?thesis by auto
  qed
  with iff show ?thesis
    by (simp add: username_topic_ok_question_count)
qed

text \<open>The request of the specification's example, with \<^verbatim>\<open>question_count = 1000\<close>.\<close>

theorem question_count_replaced_witness:
  "validate_request_data
     [(KStr ''username'', JStr ''john_doe''), (KStr ''topic'', JStr ''Python''),
      (KStr ''question_count'', JInt 1000)]
   = Inr [(KStr ''username'', JStr ''john_doe''), (KStr ''topic'', JStr ''Python''),
          (KStr ''question_count'', JInt 20), (KStr ''difficulty'', JStr ''mixed''),
          (KStr ''include_roadmap'', JBool True), (KStr ''include_videos'', JBool True)]
   \<and> dict_get [(KStr ''username'', JStr ''john_doe''), (KStr ''topic'', JStr ''Python''),
          (KStr ''question_count'', JInt 20), (KStr ''difficulty'', JStr ''mixed''),
          (KStr ''include_roadmap'', JBool True), (KStr ''include_videos'', JBool True)]
        ''question_count'' = Some (JInt 20)"
proof -
  let ?request = "[(KStr ''username'', JStr ''john_doe''), (KStr ''topic'', JStr ''Python''),
      (KStr ''question_count'', JInt 1000)]"
  have v: "dict_get ?request ''question_count'' = Some (JInt 1000)"
    by (simp add: dict_get_def)
  have n: "\<not> (\<exists>n. JInt 1000 = JInt n \<and> 5 \<le> n \<and> n \<le> 50)"
    by simp
  have run: "validate_request_data ?request
     = Inr [(KStr ''username'', JStr ''john_doe''), (KStr ''topic'', JStr ''Python''),
          (KStr ''question_count'', JInt 20), (KStr ''difficulty'', JStr ''mixed''),
          (KStr ''include_roadmap'', JBool True), (KStr ''include_videos'', JBool True)]"
    by code_simp
  from question_count_replaced [OF v n] run show ?thesis
    by simp
qed

text \<open>
  C8 at a username made of underscores only. It contains no character other than
  letters, digits, hyphens and underscores, yet once the underscores are removed
  nothing is left and \<^verbatim>\<open>isalnum\<close> of the empty string is false.
\<close>

theorem underscore_username_rejected:
  "validate_request_data [(KStr ''username'', JStr ''__''), (KStr ''topic'', JStr ''Python'')]
   = Inl (Invalid_request_data (MCQValidationError Username_format))"
  by code_simp

text \<open>The same request, seen from the caller: normalization fails.\<close>

theorem underscore_username_rejected_witness:
  "isl (validate_request_data
          [(KStr ''username'', JStr ''__''), (KStr ''topic'', JStr ''Python'')])"
  using underscore_username_rejected by simp


section \<open>Properties of the metadata\<close>

lemma map_of_fold_update:
  "distinct (map fst e) \<Longrightarrow>
   map_of (fold (\<lambda>kv m. AList.update (fst kv) (snd kv) m) e d) k
     = (case map_of e k of None \<Rightarrow> map_of d k | Some v \<Rightarrow> Some v)"
proof (induction e arbitrary: d k)
  case Nil
  then show ?case by simp
next
  case (Cons x xs)
  from Cons.prems have "fst x \<notin> fst ` set xs" and dx: "distinct (map fst xs)"
    by simp_all
  then have nx: "map_of xs (fst x) = None"
    by (simp add: map_of_eq_None_iff)
  show ?case
  proof (cases "k = fst x")
    case True
    with nx show ?thesis
      by (simp add: Cons.IH [OF dx] update_conv')
  next
    case False
    then show ?thesis
      by (cases x) (simp add: Cons.IH [OF dx] update_conv' split: option.splits)
  qed
qed

lemma count_difficulties_counts:
  assumes "\<forall>q\<in>set questions. \<not> isl (difficulty_key q)"
  shows "\<exists>dist. count_difficulties (map JObj questions) dist0 = Inr dist
           \<and> (\<forall>k. map_of dist k =
                 (if difficulty_count questions k = 0 then map_of dist0 k
                  else Some ((case map_of dist0 k of None \<Rightarrow> 0 | Some n \<Rightarrow> n)
                             + int (difficulty_count questions k))))"
  using assms
proof (induction questions arbitrary: dist0)
  case Nil
  then show ?case by (simp add: difficulty_count_def)
next
  case (Cons q qs)
  from Cons.prems obtain k0 where k0: "difficulty_key q = Inr k0"
    by (cases "difficulty_key q") auto
  let ?dist1 = "AList.update k0 ((case map_of dist0 k0 of None \<Rightarrow> 0 | Some n \<Rightarrow> n) + 1) dist0"
  from Cons.prems have "\<forall>q\<in>set qs. \<not> isl (difficulty_key q)"
    by simp
  from Cons.IH [OF this, of ?dist1] obtain dist where
    run: "count_difficulties (map JObj qs) ?dist1 = Inr dist"
    and cnt: "\<And>k. map_of dist k =
                 (if difficulty_count qs k = 0 then map_of ?dist1 k
                  else Some ((case map_of ?dist1 k of None \<Rightarrow> 0 | Some n \<Rightarrow> n)
                             + int (difficulty_count qs k)))"
    by blast
  have step: "count_difficulties (map JObj (q # qs)) dist0 = Inr dist"
    using k0 run by (simp add: difficulty_key_def)
  have "map_of dist k =
          (if difficulty_count (q # qs) k = 0 then map_of dist0 k
           else Some ((case map_of dist0 k of None \<Rightarrow> 0 | Some n \<Rightarrow> n)
                      + int (difficulty_count (q # qs) k)))" for k
  proof (cases "k = k0")
    case True
    then have "difficulty_count (q # qs) k = Suc (difficulty_count qs k)"
      by (simp add: difficulty_count_def k0)
    with True show ?thesis
      by (simp add: cnt update_conv')
  next
    case False
    then have "difficulty_count (q # qs) k = difficulty_count qs k"
      by (auto simp: difficulty_count_def k0)
    with False show ?thesis
      by (simp add: cnt update_conv')
  qed
  with step show ?case by blast
qed

lemma map_of_counts:
  "map_of (map (\<lambda>kn. (fst kn, JInt (snd kn))) dist) k = map_option JInt (map_of dist k)"
  by (induction dist) auto

lemma py_len_absent_or_sized:
  "absent_or_sized v \<Longrightarrow> \<exists>n. py_len (case v of None \<Rightarrow> JList [] | Some x \<Rightarrow> x) = Inr n"
  by (cases v; cases "the v") (simp_all add: absent_or_sized_def)

text \<open>The metadata computed before the supplied metadata is merged in.\<close>

lemma generate_metadata_eq:
  assumes qs: "dict_get repaired ''questions'' = Some (JList (map JObj questions))"
    and hk: "\<forall>q\<in>set questions. \<not> isl (difficulty_key q)"
    and rm: "absent_or_sized (dict_get repaired ''roadmap'')"
    and rv: "absent_or_sized (dict_get repaired ''reference_videos'')"
    and md: "supplied_metadata (dict_get repaired ''metadata'') = Some supplied"
  shows "\<exists>dist other.
           generate_metadata now repaired
             = Inr (fold (\<lambda>kv m. AList.update (fst kv) (snd kv) m) supplied
                      ([(KStr ''total_questions'', JInt (int (length questions))),
                        (KStr ''difficulty_distribution'', JObj dist)] @ other))
         \<and> (\<forall>k. map_of dist k =
               (if difficulty_count questions k = 0 then None
                else Some (JInt (int (difficulty_count questions k)))))"
proof -
  from count_difficulties_counts [OF hk, of "[]"] obtain counts where
    run: "count_difficulties (map JObj questions) [] = Inr counts"
    and cnt: "\<And>k. map_of counts k =
                 (if difficulty_count questions k = 0 then None
                  else Some (int (difficulty_count questions k)))"
    by auto
  from py_len_absent_or_sized [OF rm] obtain n1 where
    n1: "py_len (case dict_get repaired ''roadmap'' of None \<Rightarrow> JList [] | Some x \<Rightarrow> x) = Inr n1"
    by blast
  from py_len_absent_or_sized [OF rv] obtain n2 where
    n2: "py_len (case dict_get repaired ''reference_videos'' of None \<Rightarrow> JList [] | Some x \<Rightarrow> x)
           = Inr n2"
    by blast
  let ?dist = "map (\<lambda>kn. (fst kn, JInt (snd kn))) counts"
  let ?other = "[(KStr ''has_roadmap'', JBool (truthy (get_or_none repaired ''roadmap''))),
                 (KStr ''has_reference_videos'',
                    JBool (truthy (get_or_none repaired ''reference_videos''))),
                 (KStr ''roadmap_steps'', JInt (int n1)),
                 (KStr ''reference_video_count'', JInt (int n2)),
                 (KStr ''validation_timestamp'', JStr now)]"
  from md have sup: "(case dict_get repaired ''metadata'' of None \<Rightarrow> JObj [] | Some v \<Rightarrow> v)
                       = JObj supplied"
    by (cases "dict_get repaired ''metadata''" rule: supplied_metadata.cases) simp_all
  have gm: "generate_metadata now repaired
             = Inr (fold (\<lambda>kv m. AList.update (fst kv) (snd kv) m) supplied
                      ([(KStr ''total_questions'', JInt (int (length questions))),
                        (KStr ''difficulty_distribution'', JObj ?dist)] @ ?other))"
    unfolding generate_metadata_def
    by (simp add: qs run n1 n2 sup)
  have "\<forall>k. map_of ?dist k =
               (if difficulty_count questions k = 0 then None
                else Some (JInt (int (difficulty_count questions k))))"
    by (simp add: map_of_counts cnt)
  with gm show ?thesis
    by blast
qed

text \<open>
  What \<^verbatim>\<open>_generate_metadata\<close> computes when \<^verbatim>\<open>len\<close> accepts the collections. Let the
  payload hold the surviving questions, each with a hashable difficulty (any string
  is), a roadmap and reference videos that are absent or have a length, and either no
  metadata or a metadata dict. Then the function returns a dict in which every key of
  the supplied metadata has the supplied value; unless supplied, \<^verbatim>\<open>total_questions\<close> is the
  number of surviving questions and \<^verbatim>\<open>difficulty_distribution\<close> is a dict that maps each
  difficulty seen among them, whatever string it is, to the number of questions that
  have it, and has no other key.
\<close>

lemma metadata_counts_and_precedence:
  assumes "dict_get repaired ''questions'' = Some (JList (map JObj questions))"
    and "\<forall>q\<in>set questions. \<not> isl (difficulty_key q)"
    and "absent_or_sized (dict_get repaired ''roadmap'')"
    and "absent_or_sized (dict_get repaired ''reference_videos'')"
    and "supplied_metadata (dict_get repaired ''metadata'') = Some supplied"
    and "distinct (map fst supplied)"
  shows "\<exists>metadata dist.
           generate_metadata now repaired = Inr metadata
         \<and> (\<forall>k v. map_of supplied k = Some v \<longrightarrow> map_of metadata k = Some v)
         \<and> (map_of supplied (KStr ''total_questions'') = None \<longrightarrow>
              dict_get metadata ''total_questions'' = Some (JInt (int (length questions))))
         \<and> (map_of supplied (KStr ''difficulty_distribution'') = None \<longrightarrow>
              dict_get metadata ''difficulty_distribution'' = Some (JObj dist))
         \<and> (\<forall>k. map_of dist k =
               (if difficulty_count questions k = 0 then None
                else Some (JInt (int (difficulty_count questions k)))))
         \<and> (\<forall>q\<in>set questions. \<forall>s. dict_get q ''difficulty'' = Some (JStr s)
               \<longrightarrow> difficulty_key q = Inr (KStr s))"
proof -
  from generate_metadata_eq [OF assms(1-5), of now] obtain dist other where
    run: "generate_metadata now repaired
             = Inr (fold (\<lambda>kv m. AList.update (fst kv) (snd kv) m) supplied
                      ([(KStr ''total_questions'', JInt (int (length questions))),
                        (KStr ''difficulty_distribution'', JObj dist)] @ other))"
    and dk: "\<forall>k. map_of dist k =
               (if difficulty_count questions k = 0 then None
                else Some (JInt (int (difficulty_count questions k))))"
    by blast
  define metadata where
    "metadata = fold (\<lambda>kv m. AList.update (fst kv) (snd kv) m) supplied
                      ([(KStr ''total_questions'', JInt (int (length questions))),
                        (KStr ''difficulty_distribution'', JObj dist)] @ other)"
  have mk: "map_of metadata k =
              (case map_of supplied k of
                 None \<Rightarrow> map_of ([(KStr ''total_questions'', JInt (int (length questions))),
                                  (KStr ''difficulty_distribution'', JObj dist)] @ other) k
               | Some v \<Rightarrow> Some v)" for k
    unfolding metadata_def by (rule map_of_fold_update [OF assms(6)])
  have "\<forall>k v. map_of supplied k = Some v \<longrightarrow> map_of metadata k = Some v"
    by (simp add: mk)
  moreover have "map_of supplied (KStr ''total_questions'') = None \<longrightarrow>
              dict_get metadata ''total_questions'' = Some (JInt (int (length questions)))"
    by (simp add: dict_get_def mk)
  moreover have "map_of supplied (KStr ''difficulty_distribution'') = None \<longrightarrow>
              dict_get metadata ''difficulty_distribution'' = Some (JObj dist)"
    by (simp add: dict_get_def mk)
  moreover have "\<forall>q\<in>set questions. \<forall>s. dict_get q ''difficulty'' = Some (JStr s)
               \<longrightarrow> difficulty_key q = Inr (KStr s)"
    by (simp add: difficulty_key_def)
  ultimately show ?thesis
    using run dk unfolding metadata_def [symmetric]
    by (intro exI [of _ metadata] exI [of _ dist]) simp
qed

text \<open>
  Three surviving questions, two basic and one of the unrecognized difficulty
  \<^verbatim>\<open>expert\<close>, with supplied metadata that carries a generation time and its own
  \<^verbatim>\<open>total_questions\<close>.
\<close>

lemma metadata_counts_and_precedence_witness:
  "generate_metadata ''2024-01-15T10:30:00''
     [(KStr ''questions'',
         JList [JObj [(KStr ''difficulty'', JStr ''basic'')],
                JObj [(KStr ''difficulty'', JStr ''expert'')],
                JObj [(KStr ''difficulty'', JStr ''basic'')]]),
      (KStr ''metadata'',
         JObj [(KStr ''generation_time_seconds'', JInt 2), (KStr ''total_questions'', JInt 7)])]
   = Inr [(KStr ''total_questions'', JInt 7),
          (KStr ''difficulty_distribution'',
             JObj [(KStr ''basic'', JInt 2), (KStr ''expert'', JInt 1)]),
          (KStr ''has_roadmap'', JBool False), (KStr ''has_reference_videos'', JBool False),
          (KStr ''roadmap_steps'', JInt 0), (KStr ''reference_video_count'', JInt 0),
          (KStr ''validation_timestamp'', JStr ''2024-01-15T10:30:00''),
          (KStr ''generation_time_seconds'', JInt 2)]
   \<and> difficulty_count [[(KStr ''difficulty'', JStr ''basic'')],
                        [(KStr ''difficulty'', JStr ''expert'')],
                        [(KStr ''difficulty'', JStr ''basic'')]] (KStr ''basic'') = 2"
proof -
  let ?questions = "[[(KStr ''difficulty'', JStr ''basic'')],
                     [(KStr ''difficulty'', JStr ''expert'')],
                     [(KStr ''difficulty'', JStr ''basic'')]]"
  let ?supplied = "[(KStr ''generation_time_seconds'', JInt 2), (KStr ''total_questions'', JInt 7)]"
  let ?repaired = "[(KStr ''questions'', JList (map JObj ?questions)),
                    (KStr ''metadata'', JObj ?supplied)]"
  let ?out = "[(KStr ''total_questions'', JInt 7),
          (KStr ''difficulty_distribution'',
             JObj [(KStr ''basic'', JInt 2), (KStr ''expert'', JInt 1)]),
          (KStr ''has_roadmap'', JBool False), (KStr ''has_reference_videos'', JBool False),
          (KStr ''roadmap_steps'', JInt 0), (KStr ''reference_video_count'', JInt 0),
          (KStr ''validation_timestamp'', JStr ''2024-01-15T10:30:00''),
          (KStr ''generation_time_seconds'', JInt 2)]"
  have h1: "dict_get ?repaired ''questions'' = Some (JList (map JObj ?questions))"
    by (simp add: dict_get_def)
  have h2: "\<forall>q\<in>set ?questions. \<not> isl (difficulty_key q)"
    by (simp add: difficulty_key_def dict_get_def)
  have h3: "absent_or_sized (dict_get ?repaired ''roadmap'')"
    and h4: "absent_or_sized (dict_get ?repaired ''reference_videos'')"
    by (simp_all add: dict_get_def absent_or_sized_def)
  have h5: "supplied_metadata (dict_get ?repaired ''metadata'') = Some ?supplied"
    by (simp add: dict_get_def)
  have h6: "distinct (map fst ?supplied)"
    by simp
  have run: "generate_metadata ''2024-01-15T10:30:00'' ?repaired = Inr ?out"
    by code_simp
  have c: "difficulty_count ?questions (KStr ''basic'') = 2"
    by (simp add: difficulty_count_def difficulty_key_def dict_get_def)
  from metadata_counts_and_precedence [OF h1 h2 h3 h4 h5 h6, of "''2024-01-15T10:30:00''"]
  obtain metadata where "generate_metadata ''2024-01-15T10:30:00'' ?repaired = Inr metadata"
    and "map_of metadata (KStr ''total_questions'') = Some (JInt 7)"
    by auto
  with run c show ?thesis
    by simp
qed

text \<open>
  C6 at a repaired payload whose roadmap is \<^verbatim>\<open>None\<close>, the value that the prompt asks the
  backend to send when no roadmap is wanted. The repair of the payload skips the
  roadmap, which is falsy, and leaves it as it is; \<^verbatim>\<open>_generate_metadata\<close> then evaluates
  \<^verbatim>\<open>len(mcq_data.get("roadmap", []))\<close>, where the default does not apply to a key that is
  present, and the length of \<^verbatim>\<open>None\<close> raises \<^verbatim>\<open>TypeError\<close>: no metadata is synthesized.
\<close>

theorem null_roadmap_no_metadata:
  "before_metadata ''2024-02-01T08:00:00''
     [(KStr ''username'', JStr ''a''), (KStr ''topic'', JStr ''b''),
      (KStr ''questions'',
         JList [JObj [(KStr ''question_text'', JStr ''Q?''), (KStr ''explanation'', JStr ''E''),
                      (KStr ''options'', JList []), (KStr ''difficulty'', JStr ''basic'')]]),
      (KStr ''roadmap'', JNull)]
   = [(KStr ''username'', JStr ''a''), (KStr ''topic'', JStr ''b''),
      (KStr ''questions'',
         JList [JObj [(KStr ''question_text'', JStr ''Q?''), (KStr ''explanation'', JStr ''E''),
                      (KStr ''options'',
                         JList [JObj [(KStr ''option'', JStr ''Option 1''),
                                      (KStr ''is_correct'', JBool True)],
                                JObj [(KStr ''option'', JStr ''Option 2''),
                                      (KStr ''is_correct'', JBool False)],
                                JObj [(KStr ''option'', JStr ''Option 3''),
                                      (KStr ''is_correct'', JBool False)],
                                JObj [(KStr ''option'', JStr ''Option 4''),
                                      (KStr ''is_correct'', JBool False)]]),
                      (KStr ''difficulty'', JStr ''basic''), (KStr ''question_id'', JInt 1),
                      (KStr ''topic_area'', JStr ''General'')]]),
      (KStr ''roadmap'', JNull), (KStr ''timestamp'', JStr ''2024-02-01T08:00:00'')]
   \<and> generate_metadata ''2024-02-01T08:00:01''
       [(KStr ''username'', JStr ''a''), (KStr ''topic'', JStr ''b''),
        (KStr ''questions'',
           JList [JObj [(KStr ''question_text'', JStr ''Q?''), (KStr ''explanation'', JStr ''E''),
                        (KStr ''options'',
                           JList [JObj [(KStr ''option'', JStr ''Option 1''),
                                        (KStr ''is_correct'', JBool True)],
                                  JObj [(KStr ''option'', JStr ''Option 2''),
                                        (KStr ''is_correct'', JBool False)],
                                  JObj [(KStr ''option'', JStr ''Option 3''),
                                        (KStr ''is_correct'', JBool False)],
                                  JObj [(KStr ''option'', JStr ''Option 4''),
                                        (KStr ''is_correct'', JBool False)]]),
                        (KStr ''difficulty'', JStr ''basic''), (KStr ''question_id'', JInt 1),
                        (KStr ''topic_area'', JStr ''General'')]]),
        (KStr ''roadmap'', JNull), (KStr ''timestamp'', JStr ''2024-02-01T08:00:00'')]
     = Inl TypeError"
  by code_simp


section \<open>The repair operation as a whole\<close>















text \<open>
  A payload whose roadmap is \<^verbatim>\<open>None\<close>: the repair skips the roadmap and
  \<^verbatim>\<open>_generate_metadata\<close> then takes the length of \<^verbatim>\<open>None\<close>, which raises \<^verbatim>\<open>TypeError\<close>. The side
  conditions of the next theorem leave such payloads aside.
\<close>

lemma null_roadmap_raises:
  "validate_mcq_json loads_not_called MCQResponse ''t1'' ''t2''
     (Mapping [(KStr ''username'', JStr ''a''), (KStr ''topic'', JStr ''b''),
               (KStr ''questions'',
                  JList [JObj [(KStr ''question_text'', JStr ''Q?''),
                               (KStr ''explanation'', JStr ''E''),
                               (KStr ''options'', JList []),
                               (KStr ''difficulty'', JStr ''basic'')]]),
               (KStr ''roadmap'', JNull)])
   = Inl (Error_validating_MCQ_data TypeError)"
  by code_simp





section \<open>Repair of a response that is already repaired\<close>



















end
